theory Spec2Isabelle
  imports Main
begin

section \<open>The book service: data model\<close>

text \<open>
  The repository holds two versions of one Go program, an HTTP service over the table
  \<^verbatim>\<open>bz.dbo.tbl_book\<close>: \<^verbatim>\<open>src/unnamed/part_001\<close> (with \<^verbatim>\<open>loadConfig\<close>, a health endpoint
  and a configurable port) and \<^verbatim>\<open>src/main.go\<close> (without them). Definitions carry the
  source's names; a definition of the \<^verbatim>\<open>src/main.go\<close> version that differs from its
  sibling has the suffix \<open>_main_go\<close>.
\<close>

text \<open>\<^verbatim>\<open>type Book struct\<close>: the JSON view of one book. Go's \<^verbatim>\<open>int\<close> is only stored and
  compared, never computed with, so \<open>Year\<close> is an integer; a body whose year does not
  fit an \<^verbatim>\<open>int\<close> is one that \<^verbatim>\<open>Decode\<close> refuses.\<close>

record Book =
  ID :: string
  Title :: string
  Author :: string
  Year :: int
  Regdate :: string

text \<open>A row of \<^verbatim>\<open>bz.dbo.tbl_book\<close>, with the columns the statements of the source name:
  \<^verbatim>\<open>id, title, author, year, regdate\<close>. The id is the string the source scans it into.
  The column \<^verbatim>\<open>regdate\<close> is a date-time (the source fills it with \<^verbatim>\<open>GETDATE()\<close>, orders
  by it and scans it into a \<^verbatim>\<open>time.Time\<close>); it is a number of clock ticks here. The table
  is the list of its rows, a new row at the end.\<close>

type_synonym datetime = nat

record Row =
  col_id :: string
  col_title :: string
  col_author :: string
  col_year :: int
  col_regdate :: datetime

text \<open>The two process-wide variables the handlers share: \<^verbatim>\<open>var books []Book\<close> (the cache)
  and the table behind \<^verbatim>\<open>var db *sql.DB\<close>.\<close>

record state =
  books :: "Book list"
  tbl_book :: "Row list"

text \<open>What the world outside the program does during one request: whether the driver
  fails a statement (\<open>exec_err\<close> carries the driver's message), whether
  \<^verbatim>\<open>RowsAffected\<close> fails, whether a query or its \<^verbatim>\<open>Scan\<close> fails, the id the engine gives
  an inserted row, the value of \<^verbatim>\<open>GETDATE()\<close>, the string \<^verbatim>\<open>Scan\<close> stores into a
  \<^verbatim>\<open>string\<close> field for a date-time column, and \<^verbatim>\<open>time.Now().Format(time.RFC3339)\<close>.\<close>

record ext =
  exec_err :: "string option"
  rows_err :: bool
  query_err :: bool
  new_id :: string
  getdate :: datetime
  scan_time :: "datetime \<Rightarrow> string"
  now_rfc3339 :: string

text \<open>An \<^verbatim>\<open>*http.Request\<close>, as far as the program reads it: the method; the path, as
  the list of its segments after the first slash (\<^verbatim>\<open>/books/7\<close> is \<open>[''books'', ''7'']\<close>,
  \<^verbatim>\<open>/books/\<close> is \<open>[''books'', []]\<close>, \<^verbatim>\<open>/\<close> is \<open>[[]]\<close>); the header; the route variables
  of \<^verbatim>\<open>mux.Vars\<close>; and the outcome of \<^verbatim>\<open>json.NewDecoder(r.Body).Decode(&book)\<close> (\<open>None\<close>
  when it returns an error), which \<open>Decode\<close> below computes from the body.\<close>

record request =
  Method :: string
  Path :: "string list"
  Header :: "string \<rightharpoonup> string"
  Vars :: "string \<rightharpoonup> string"
  Decoded :: "Book option"

text \<open>The texts of the responses are Korean in the source; each is a constructor here.
  \<open>Lit\<close> is a literal string, \<open>Detail m e\<close> is \<^verbatim>\<open>m + ": " + err.Error()\<close>.\<close>

datatype msg =
    Lit string
  | KeyRequired
  | KeyInvalid
  | BookNotFound
  | BadFormat
  | InsertFailed
  | InsertedReadFailed
  | UpdateFailed
  | UpdateCheckFailed
  | UpdateNotFound
  | UpdatedReadFailed
  | DeleteFailed
  | DeleteCheckFailed
  | DeleteNotFound
  | Deleted
  | Detail msg string
  | PageNotFound
  | MethodNotAllowed

text \<open>What a response carries: a JSON object of texts, a book, the list of books, or,
  for a redirect, no body and the path of its \<^verbatim>\<open>Location\<close> header.\<close>

datatype body =
    Object "(string \<times> msg) list"
  | BookJson Book
  | BooksJson "Book list"
  | Moved "string list"

record response =
  status :: nat
  body :: body

type_synonym handler = "ext \<Rightarrow> request \<Rightarrow> state \<Rightarrow> response \<times> state"

definition reply :: "nat \<Rightarrow> body \<Rightarrow> response" where
  "reply c b = \<lparr>status = c, body = b\<rparr>"

definition error_body :: "msg \<Rightarrow> body" where
  "error_body m = Object [(''error'', m)]"

section \<open>The table, as the statements of the source use it\<close>

text \<open>\<^verbatim>\<open>INSERT INTO bz.dbo.tbl_book (title, author, year, regdate) VALUES (?, ?, ?, GETDATE())\<close>.
  A statement the driver fails leaves the table as it was.\<close>

definition Exec_insert ::
  "ext \<Rightarrow> Row list \<Rightarrow> string \<Rightarrow> string \<Rightarrow> int \<Rightarrow> (string + nat) \<times> Row list" where
  "Exec_insert x t ti au ye =
     (case exec_err x of
        Some e \<Rightarrow> (Inl e, t)
      | None \<Rightarrow> (Inr 1, t @ [\<lparr>col_id = new_id x, col_title = ti, col_author = au,
                                col_year = ye, col_regdate = getdate x\<rparr>]))"

text \<open>\<^verbatim>\<open>UPDATE bz.dbo.tbl_book SET title = ?, author = ?, year = ? WHERE id = ?\<close>. A row
  matches when its id is the parameter; the number is the count of rows that matched,
  which \<^verbatim>\<open>RowsAffected\<close> reports.\<close>

definition Exec_update ::
  "ext \<Rightarrow> Row list \<Rightarrow> string \<Rightarrow> string \<Rightarrow> int \<Rightarrow> string \<Rightarrow> (string + nat) \<times> Row list" where
  "Exec_update x t ti au ye i =
     (case exec_err x of
        Some e \<Rightarrow> (Inl e, t)
      | None \<Rightarrow> (Inr (length (filter (\<lambda>r. col_id r = i) t)),
                 map (\<lambda>r. if col_id r = i
                           then r\<lparr>col_title := ti, col_author := au, col_year := ye\<rparr>
                           else r) t))"

text \<open>\<^verbatim>\<open>DELETE FROM bz.dbo.tbl_book WHERE id = ?\<close>.\<close>

definition Exec_delete :: "ext \<Rightarrow> Row list \<Rightarrow> string \<Rightarrow> (string + nat) \<times> Row list" where
  "Exec_delete x t i =
     (case exec_err x of
        Some e \<Rightarrow> (Inl e, t)
      | None \<Rightarrow> (Inr (length (filter (\<lambda>r. col_id r = i) t)),
                 filter (\<lambda>r. col_id r \<noteq> i) t))"

definition RowsAffected :: "ext \<Rightarrow> nat \<Rightarrow> nat option" where
  "RowsAffected x n = (if rows_err x then None else Some n)"

text \<open>\<^verbatim>\<open>Scan(&b.ID, &b.Title, &b.Author, &b.Year, &b.Regdate)\<close> of one row.\<close>

definition Scan :: "ext \<Rightarrow> Row \<Rightarrow> Book" where
  "Scan x r = \<lparr>ID = col_id r, Title = col_title r, Author = col_author r,
              Year = col_year r, Regdate = scan_time x (col_regdate r)\<rparr>"

text \<open>\<^verbatim>\<open>SELECT TOP 1 ... ORDER BY regdate DESC\<close>: a row with the greatest \<^verbatim>\<open>regdate\<close>.
  Among rows with the same \<^verbatim>\<open>regdate\<close> the engine is free; the model takes the one
  stored first, and no theorem below rests on that choice.\<close>

fun latest :: "Row list \<Rightarrow> Row option" where
  "latest [] = None"
| "latest (r # rs) =
     (case latest rs of
        None \<Rightarrow> Some r
      | Some m \<Rightarrow> if col_regdate r < col_regdate m then Some m else Some r)"

text \<open>\<^verbatim>\<open>db.QueryRow(...).Scan(...)\<close>: \<open>None\<close> is an error (the driver's, or
  \<^verbatim>\<open>sql.ErrNoRows\<close>).\<close>

definition QueryRow_latest :: "ext \<Rightarrow> Row list \<Rightarrow> Book option" where
  "QueryRow_latest x t = (if query_err x then None else map_option (Scan x) (latest t))"

definition QueryRow_by_id :: "ext \<Rightarrow> Row list \<Rightarrow> string \<Rightarrow> Book option" where
  "QueryRow_by_id x t i =
     (if query_err x then None else map_option (Scan x) (find (\<lambda>r. col_id r = i) t))"

section \<open>The handlers\<close>

text \<open>\<^verbatim>\<open>r.Header.Get\<close>, \<^verbatim>\<open>mux.Vars(r)[k]\<close> and \<^verbatim>\<open>os.Getenv\<close> give the empty string for a
  key that is absent.\<close>

definition Get :: "(string \<rightharpoonup> string) \<Rightarrow> string \<Rightarrow> string" where
  "Get m k = (case m k of None \<Rightarrow> [] | Some v \<Rightarrow> v)"

text \<open>The body of a request as a JSON value. A number is an integer literal or any other
  number literal; what is inside an array is never read by \<^verbatim>\<open>Decode\<close> into a \<^verbatim>\<open>Book\<close>.\<close>

datatype json =
    JNull
  | JBool bool
  | JNumber int
  | JFraction
  | JString string
  | JArray
  | JObject "(string \<times> json) list"

text \<open>\<^verbatim>\<open>Decode(&book)\<close> of \<^verbatim>\<open>encoding/json\<close> into the zero \<^verbatim>\<open>Book\<close>. A key names a field
  when it equals the field's tag up to the case of its letters; other keys are skipped.
  \<^verbatim>\<open>null\<close> leaves a field as it is; a string field takes a JSON string, the \<^verbatim>\<open>int\<close> field
  an integer literal that fits 64 bits; any other value for a field is an error, and so
  is a body that is not JSON (\<open>None\<close>) or is neither \<^verbatim>\<open>null\<close> nor an object.\<close>

definition lower :: "char \<Rightarrow> char" where
  "lower c = (let n = (of_char c :: nat) in if 65 \<le> n \<and> n \<le> 90 then char_of (n + 32) else c)"

definition string_field :: "json \<Rightarrow> (string \<Rightarrow> Book) \<Rightarrow> Book \<Rightarrow> Book option" where
  "string_field v put b =
     (case v of JNull \<Rightarrow> Some b | JString s \<Rightarrow> Some (put s) | _ \<Rightarrow> None)"

definition int_field :: "json \<Rightarrow> (int \<Rightarrow> Book) \<Rightarrow> Book \<Rightarrow> Book option" where
  "int_field v put b =
     (case v of
        JNull \<Rightarrow> Some b
      | JNumber n \<Rightarrow> if - (2 ^ 63) \<le> n \<and> n < 2 ^ 63 then Some (put n) else None
      | _ \<Rightarrow> None)"

definition set_field :: "string \<Rightarrow> json \<Rightarrow> Book \<Rightarrow> Book option" where
  "set_field k v b =
     (let f = map lower k in
      if f = ''id'' then string_field v (\<lambda>s. b\<lparr>ID := s\<rparr>) b
      else if f = ''title'' then string_field v (\<lambda>s. b\<lparr>Title := s\<rparr>) b
      else if f = ''author'' then string_field v (\<lambda>s. b\<lparr>Author := s\<rparr>) b
      else if f = ''year'' then int_field v (\<lambda>n. b\<lparr>Year := n\<rparr>) b
      else if f = ''regdate'' then string_field v (\<lambda>s. b\<lparr>Regdate := s\<rparr>) b
      else Some b)"

fun decode_fields :: "(string \<times> json) list \<Rightarrow> Book \<Rightarrow> Book option" where
  "decode_fields [] b = Some b"
| "decode_fields ((k, v) # kvs) b =
     (case set_field k v b of None \<Rightarrow> None | Some b' \<Rightarrow> decode_fields kvs b')"

definition zero_Book :: Book where
  "zero_Book = \<lparr>ID = [], Title = [], Author = [], Year = 0, Regdate = []\<rparr>"

definition Decode :: "json option \<Rightarrow> Book option" where
  "Decode j =
     (case j of
        None \<Rightarrow> None
      | Some JNull \<Rightarrow> Some zero_Book
      | Some (JObject kvs) \<Rightarrow> decode_fields kvs zero_Book
      | Some _ \<Rightarrow> None)"

text \<open>\<^verbatim>\<open>authMiddleware(apiKey)(next)\<close> of \<^verbatim>\<open>part_001\<close>.\<close>

definition authMiddleware :: "string \<Rightarrow> handler \<Rightarrow> handler" where
  "authMiddleware apiKey next x r st =
     (let requestAPIKey = Get (Header r) ''X-API-Key'' in
      if requestAPIKey = [] then (reply 401 (error_body KeyRequired), st)
      else if requestAPIKey \<noteq> apiKey then (reply 401 (error_body KeyInvalid), st)
      else next x r st)"

text \<open>\<^verbatim>\<open>authMiddleware(next)\<close> of \<^verbatim>\<open>main.go\<close>: the secret is read from the environment at
  every request.\<close>

definition authMiddleware_main_go :: "(string \<rightharpoonup> string) \<Rightarrow> handler \<Rightarrow> handler" where
  "authMiddleware_main_go environ next x r st =
     (let apiKey = Get (Header r) ''X-API-Key'' in
      if apiKey = [] then (reply 401 (error_body KeyRequired), st)
      else if apiKey \<noteq> Get environ ''API_KEY'' then (reply 401 (error_body KeyInvalid), st)
      else next x r st)"

definition HealthCheck :: handler where
  "HealthCheck x r st =
     (reply 200 (Object [(''status'', Lit ''healthy''), (''time'', Lit (now_rfc3339 x))]), st)"

definition GetBooks :: handler where
  "GetBooks x r st = (reply 200 (BooksJson (books st)), st)"

text \<open>The loop of \<^verbatim>\<open>GetBook\<close>: the first book of the cache with the id.\<close>

fun GetBook_loop :: "string \<Rightarrow> Book list \<Rightarrow> Book option" where
  "GetBook_loop i [] = None"
| "GetBook_loop i (book # bs) = (if ID book = i then Some book else GetBook_loop i bs)"

definition GetBook :: handler where
  "GetBook x r st =
     (let i = Get (Vars r) ''id'' in
      case GetBook_loop i (books st) of
        Some book \<Rightarrow> (reply 200 (BookJson book), st)
      | None \<Rightarrow> (reply 404 (error_body BookNotFound), st))"

definition CreateBook :: handler where
  "CreateBook x r st =
     (case Decoded r of
        None \<Rightarrow> (reply 400 (error_body BadFormat), st)
      | Some book \<Rightarrow>
          (case Exec_insert x (tbl_book st) (Title book) (Author book) (Year book) of
             (Inl e, t) \<Rightarrow> (reply 500 (error_body InsertFailed), st\<lparr>tbl_book := t\<rparr>)
           | (Inr n, t) \<Rightarrow>
               (case QueryRow_latest x t of
                  None \<Rightarrow> (reply 500 (error_body InsertedReadFailed), st\<lparr>tbl_book := t\<rparr>)
                | Some newBook \<Rightarrow>
                    (reply 201 (BookJson newBook),
                     \<lparr>books = books st @ [newBook], tbl_book = t\<rparr>))))"

text \<open>\<^verbatim>\<open>CreateBook\<close> of \<^verbatim>\<open>main.go\<close>: the same, but the driver's message is sent with the
  first 500.\<close>

definition CreateBook_main_go :: handler where
  "CreateBook_main_go x r st =
     (case Decoded r of
        None \<Rightarrow> (reply 400 (error_body BadFormat), st)
      | Some book \<Rightarrow>
          (case Exec_insert x (tbl_book st) (Title book) (Author book) (Year book) of
             (Inl e, t) \<Rightarrow> (reply 500 (error_body (Detail InsertFailed e)), st\<lparr>tbl_book := t\<rparr>)
           | (Inr n, t) \<Rightarrow>
               (case QueryRow_latest x t of
                  None \<Rightarrow> (reply 500 (error_body InsertedReadFailed), st\<lparr>tbl_book := t\<rparr>)
                | Some newBook \<Rightarrow>
                    (reply 201 (BookJson newBook),
                     \<lparr>books = books st @ [newBook], tbl_book = t\<rparr>))))"

text \<open>The loop of \<^verbatim>\<open>UpdateBook\<close>: \<^verbatim>\<open>books[i] = updatedBook; break\<close> at the first book with
  the id.\<close>

fun UpdateBook_loop :: "string \<Rightarrow> Book \<Rightarrow> Book list \<Rightarrow> Book list" where
  "UpdateBook_loop i updatedBook [] = []"
| "UpdateBook_loop i updatedBook (b # bs) =
     (if ID b = i then updatedBook # bs else b # UpdateBook_loop i updatedBook bs)"

definition UpdateBook :: handler where
  "UpdateBook x r st =
     (let i = Get (Vars r) ''id'' in
      case Decoded r of
        None \<Rightarrow> (reply 400 (error_body BadFormat), st)
      | Some book \<Rightarrow>
          (case Exec_update x (tbl_book st) (Title book) (Author book) (Year book) i of
             (Inl e, t) \<Rightarrow> (reply 500 (error_body UpdateFailed), st\<lparr>tbl_book := t\<rparr>)
           | (Inr n, t) \<Rightarrow>
               (case RowsAffected x n of
                  None \<Rightarrow> (reply 500 (error_body UpdateCheckFailed), st\<lparr>tbl_book := t\<rparr>)
                | Some rowsAffected \<Rightarrow>
                    if rowsAffected = 0
                    then (reply 404 (error_body UpdateNotFound), st\<lparr>tbl_book := t\<rparr>)
                    else
                      (case QueryRow_by_id x t i of
                         None \<Rightarrow>
                           (reply 500 (error_body UpdatedReadFailed), st\<lparr>tbl_book := t\<rparr>)
                       | Some updatedBook \<Rightarrow>
                           (reply 200 (BookJson updatedBook),
                            \<lparr>books = UpdateBook_loop i updatedBook (books st),
                             tbl_book = t\<rparr>)))))"

text \<open>The loop of \<^verbatim>\<open>DeleteBook\<close>: \<^verbatim>\<open>books = append(books[:i], books[i+1:]...); break\<close> at
  the first book with the id.\<close>

fun DeleteBook_loop :: "string \<Rightarrow> Book list \<Rightarrow> Book list" where
  "DeleteBook_loop i [] = []"
| "DeleteBook_loop i (book # bs) = (if ID book = i then bs else book # DeleteBook_loop i bs)"

definition DeleteBook :: handler where
  "DeleteBook x r st =
     (let i = Get (Vars r) ''id'' in
      case Exec_delete x (tbl_book st) i of
        (Inl e, t) \<Rightarrow> (reply 500 (error_body DeleteFailed), st\<lparr>tbl_book := t\<rparr>)
      | (Inr n, t) \<Rightarrow>
          (case RowsAffected x n of
             None \<Rightarrow> (reply 500 (error_body DeleteCheckFailed), st\<lparr>tbl_book := t\<rparr>)
           | Some rowsAffected \<Rightarrow>
               if rowsAffected = 0
               then (reply 404 (error_body DeleteNotFound), st\<lparr>tbl_book := t\<rparr>)
               else (reply 200 (Object [(''message'', Deleted)]),
                     \<lparr>books = DeleteBook_loop i (books st), tbl_book = t\<rparr>)))"

text \<open>\<^verbatim>\<open>UpdateBook\<close> and \<^verbatim>\<open>DeleteBook\<close> of \<^verbatim>\<open>main.go\<close>: the same, but the driver's message is
  sent with the 500 of a failed statement. \<^verbatim>\<open>GetBooks\<close> and \<^verbatim>\<open>GetBook\<close> of \<^verbatim>\<open>main.go\<close> differ
  from the ones above only in not setting the content type, which the model does not
  hold.\<close>

definition UpdateBook_main_go :: handler where
  "UpdateBook_main_go x r st =
     (let i = Get (Vars r) ''id'' in
      case Decoded r of
        None \<Rightarrow> (reply 400 (error_body BadFormat), st)
      | Some book \<Rightarrow>
          (case Exec_update x (tbl_book st) (Title book) (Author book) (Year book) i of
             (Inl e, t) \<Rightarrow> (reply 500 (error_body (Detail UpdateFailed e)), st\<lparr>tbl_book := t\<rparr>)
           | (Inr n, t) \<Rightarrow>
               (case RowsAffected x n of
                  None \<Rightarrow> (reply 500 (error_body UpdateCheckFailed), st\<lparr>tbl_book := t\<rparr>)
                | Some rowsAffected \<Rightarrow>
                    if rowsAffected = 0
                    then (reply 404 (error_body UpdateNotFound), st\<lparr>tbl_book := t\<rparr>)
                    else
                      (case QueryRow_by_id x t i of
                         None \<Rightarrow>
                           (reply 500 (error_body UpdatedReadFailed), st\<lparr>tbl_book := t\<rparr>)
                       | Some updatedBook \<Rightarrow>
                           (reply 200 (BookJson updatedBook),
                            \<lparr>books = UpdateBook_loop i updatedBook (books st),
                             tbl_book = t\<rparr>)))))"

definition DeleteBook_main_go :: handler where
  "DeleteBook_main_go x r st =
     (let i = Get (Vars r) ''id'' in
      case Exec_delete x (tbl_book st) i of
        (Inl e, t) \<Rightarrow> (reply 500 (error_body (Detail DeleteFailed e)), st\<lparr>tbl_book := t\<rparr>)
      | (Inr n, t) \<Rightarrow>
          (case RowsAffected x n of
             None \<Rightarrow> (reply 500 (error_body DeleteCheckFailed), st\<lparr>tbl_book := t\<rparr>)
           | Some rowsAffected \<Rightarrow>
               if rowsAffected = 0
               then (reply 404 (error_body DeleteNotFound), st\<lparr>tbl_book := t\<rparr>)
               else (reply 200 (Object [(''message'', Deleted)]),
                     \<lparr>books = DeleteBook_loop i (books st), tbl_book = t\<rparr>)))"

section \<open>Routes and start-up\<close>

text \<open>\<^verbatim>\<open>type Config struct\<close> of \<^verbatim>\<open>part_001\<close>.\<close>

record Config =
  DBServer :: string
  DBUser :: string
  DBPassword :: string
  DBPort :: string
  DBName :: string
  APIKey :: string
  Port :: string

text \<open>What the world outside does at start-up: whether \<^verbatim>\<open>godotenv.Load\<close>, \<^verbatim>\<open>sql.Open\<close>,
  \<^verbatim>\<open>db.Ping\<close>, the two queries of \<^verbatim>\<open>main\<close>, \<^verbatim>\<open>rows.Columns\<close> or \<^verbatim>\<open>rows.Scan\<close> fail,
  and the string \<^verbatim>\<open>regdate.Format("2006-01-02 15:04:05")\<close> gives.\<close>

record boot =
  dotenv_err :: bool
  open_err :: bool
  ping_err :: bool
  probe_err :: bool
  columns_err :: bool
  select_err :: bool
  row_scan_err :: bool
  format_time :: "datetime \<Rightarrow> string"

text \<open>What \<^verbatim>\<open>main\<close> hands to \<^verbatim>\<open>http.ListenAndServe\<close>, and the cache it has filled by
  then. \<open>None\<close> below is \<^verbatim>\<open>log.Fatal\<close>: the process exits before it listens.\<close>

record server =
  Addr :: string
  Serve :: handler
  Loaded :: "Book list"

text \<open>\<^verbatim>\<open>getEnv\<close> and \<^verbatim>\<open>loadConfig\<close> of \<^verbatim>\<open>part_001\<close>. The environment is the one after the
  optional \<^verbatim>\<open>godotenv.Load\<close>, whose failure is only logged.\<close>

definition getEnv :: "(string \<rightharpoonup> string) \<Rightarrow> string \<Rightarrow> string \<Rightarrow> string" where
  "getEnv environ key defaultValue =
     (let v = Get environ key in if v \<noteq> [] then v else defaultValue)"

definition loadConfig :: "(string \<rightharpoonup> string) \<Rightarrow> Config option" where
  "loadConfig environ =
     (let config = \<lparr>DBServer = getEnv environ ''DB_SERVER'' [],
                    DBUser = getEnv environ ''DB_USER'' [],
                    DBPassword = getEnv environ ''DB_PASSWORD'' [],
                    DBPort = getEnv environ ''DB_PORT'' ''1433'',
                    DBName = getEnv environ ''DB_NAME'' [],
                    APIKey = getEnv environ ''API_KEY'' [],
                    Port = getEnv environ ''PORT'' ''8000''\<rparr> in
      if DBServer config = [] \<or> DBUser config = [] \<or> DBPassword config = [] \<or>
         DBName config = [] \<or> APIKey config = []
      then None else Some config)"

text \<open>\<^verbatim>\<open>connectDB\<close>: true when the connection is open and answers the ping. The
  connection string goes to the driver unread by the program, in both versions;
  \<^verbatim>\<open>main.go\<close> loads \<^verbatim>\<open>.env\<close> here and stops when that fails.\<close>

definition connectDB :: "boot \<Rightarrow> Config \<Rightarrow> bool" where
  "connectDB bt config = (if open_err bt then False else if ping_err bt then False else True)"

definition connectDB_main_go :: "boot \<Rightarrow> (string \<rightharpoonup> string) \<Rightarrow> bool" where
  "connectDB_main_go bt environ =
     (if dotenv_err bt then False
      else if open_err bt then False else if ping_err bt then False else True)"

text \<open>The answers of the \<^verbatim>\<open>gorilla/mux\<close> router for a request no route takes: 404 when no
  route has the path, 405 when one has the path but not the method. The text in the body
  stands for what the router writes there.\<close>

definition not_found :: "state \<Rightarrow> response \<times> state" where
  "not_found st = (reply 404 (error_body PageNotFound), st)"

definition not_allowed :: "state \<Rightarrow> response \<times> state" where
  "not_allowed st = (reply 405 (error_body MethodNotAllowed), st)"

text \<open>\<^verbatim>\<open>cleanPath\<close> of \<^verbatim>\<open>gorilla/mux\<close>, on segments: \<^verbatim>\<open>path.Clean\<close> drops empty and \<^verbatim>\<open>.\<close>
  segments and lets \<^verbatim>\<open>..\<close> take back the segment before it; a trailing slash is kept.
  The router answers a request whose path is not its own clean path with 301 and the
  clean path, before it looks at any route.\<close>

fun Clean :: "string list \<Rightarrow> string list \<Rightarrow> string list" where
  "Clean out [] = out"
| "Clean out (s # ss) =
     (if s = [] then Clean out ss
      else if s = ''.'' then Clean out ss
      else if s = ''..'' then Clean (butlast out) ss
      else Clean (out @ [s]) ss)"

definition cleanPath :: "string list \<Rightarrow> string list" where
  "cleanPath p =
     (let np = Clean [] p in
      if np = [] then [[]]
      else if p \<noteq> [] \<and> last p = [] then np @ [[]]
      else np)"

definition moved :: "request \<Rightarrow> state \<Rightarrow> response \<times> state" where
  "moved r st = (reply 301 (Moved (cleanPath (Path r))), st)"

text \<open>The routes \<^verbatim>\<open>main\<close> of \<^verbatim>\<open>part_001\<close> registers; \<^verbatim>\<open>{id}\<close> takes one non-empty path
  segment.\<close>

definition router :: "string \<Rightarrow> handler" where
  "router apiKey x r st =
     (let auth = authMiddleware apiKey in
      if cleanPath (Path r) \<noteq> Path r then moved r st
      else
        case Path r of
          [p] \<Rightarrow>
            if p = ''health'' then
              (if Method r = ''GET'' then HealthCheck x r st else not_allowed st)
            else if p = ''books'' then
              (if Method r = ''GET'' then auth GetBooks x r st
               else if Method r = ''POST'' then auth CreateBook x r st
               else not_allowed st)
            else not_found st
        | [p, i] \<Rightarrow>
            if p = ''books'' \<and> i \<noteq> [] then
              (if Method r = ''GET'' then auth GetBook x (r\<lparr>Vars := [''id'' \<mapsto> i]\<rparr>) st
               else if Method r = ''PUT'' then
                 auth UpdateBook x (r\<lparr>Vars := [''id'' \<mapsto> i]\<rparr>) st
               else if Method r = ''DELETE'' then
                 auth DeleteBook x (r\<lparr>Vars := [''id'' \<mapsto> i]\<rparr>) st
               else not_allowed st)
            else not_found st
        | _ \<Rightarrow> not_found st)"

text \<open>The routes \<^verbatim>\<open>main\<close> of \<^verbatim>\<open>main.go\<close> registers.\<close>

definition router_main_go :: "(string \<rightharpoonup> string) \<Rightarrow> handler" where
  "router_main_go environ x r st =
     (let auth = authMiddleware_main_go environ in
      if cleanPath (Path r) \<noteq> Path r then moved r st
      else
        case Path r of
          [p] \<Rightarrow>
            if p = ''books'' then
              (if Method r = ''GET'' then auth GetBooks x r st
               else if Method r = ''POST'' then auth CreateBook_main_go x r st
               else not_allowed st)
            else not_found st
        | [p, i] \<Rightarrow>
            if p = ''books'' \<and> i \<noteq> [] then
              (if Method r = ''GET'' then auth GetBook x (r\<lparr>Vars := [''id'' \<mapsto> i]\<rparr>) st
               else if Method r = ''PUT'' then
                 auth UpdateBook_main_go x (r\<lparr>Vars := [''id'' \<mapsto> i]\<rparr>) st
               else if Method r = ''DELETE'' then
                 auth DeleteBook_main_go x (r\<lparr>Vars := [''id'' \<mapsto> i]\<rparr>) st
               else not_allowed st)
            else not_found st
        | _ \<Rightarrow> not_found st)"

text \<open>The requests that reach a route behind the middleware, in both versions.\<close>

definition protected :: "request \<Rightarrow> bool" where
  "protected r =
     (cleanPath (Path r) = Path r \<and>
      (case Path r of
         [p] \<Rightarrow> p = ''books'' \<and> (Method r = ''GET'' \<or> Method r = ''POST'')
       | [p, i] \<Rightarrow>
           p = ''books'' \<and> i \<noteq> [] \<and>
           (Method r = ''GET'' \<or> Method r = ''PUT'' \<or> Method r = ''DELETE'')
       | _ \<Rightarrow> False))"

text \<open>The loop of \<^verbatim>\<open>main\<close> over \<^verbatim>\<open>SELECT * FROM bz.dbo.tbl_book\<close>: one book per row, the
  \<^verbatim>\<open>regdate\<close> scanned into a \<^verbatim>\<open>time.Time\<close> and formatted.\<close>

definition load_book :: "boot \<Rightarrow> Row \<Rightarrow> Book" where
  "load_book bt r = \<lparr>ID = col_id r, Title = col_title r, Author = col_author r,
                    Year = col_year r, Regdate = format_time bt (col_regdate r)\<rparr>"

definition load_books :: "boot \<Rightarrow> Row list \<Rightarrow> Book list option" where
  "load_books bt rows =
     (if probe_err bt then None
      else if columns_err bt then None
      else if select_err bt then None
      else if rows \<noteq> [] \<and> row_scan_err bt then None
      else Some (map (load_book bt) rows))"

text \<open>\<^verbatim>\<open>main\<close> of \<^verbatim>\<open>part_001\<close>, up to the call of \<^verbatim>\<open>http.ListenAndServe\<close>.\<close>

definition main :: "(string \<rightharpoonup> string) \<Rightarrow> boot \<Rightarrow> Row list \<Rightarrow> server option" where
  "main environ bt rows =
     (case loadConfig environ of
        None \<Rightarrow> None
      | Some config \<Rightarrow>
          if connectDB bt config then
            (case load_books bt rows of
               None \<Rightarrow> None
             | Some bs \<Rightarrow>
                 Some \<lparr>Addr = '':'' @ Port config, Serve = router (APIKey config),
                       Loaded = bs\<rparr>)
          else None)"

text \<open>\<^verbatim>\<open>main\<close> of \<^verbatim>\<open>main.go\<close>.\<close>

definition main_main_go :: "(string \<rightharpoonup> string) \<Rightarrow> boot \<Rightarrow> Row list \<Rightarrow> server option" where
  "main_main_go environ bt rows =
     (if connectDB_main_go bt environ then
        (case load_books bt rows of
           None \<Rightarrow> None
         | Some bs \<Rightarrow>
             Some \<lparr>Addr = '':8000'', Serve = router_main_go environ, Loaded = bs\<rparr>)
      else None)"

section \<open>The table after a statement\<close>

text \<open>The table after the insert of \<^verbatim>\<open>CreateBook\<close> for a decoded body.\<close>

definition inserted :: "ext \<Rightarrow> state \<Rightarrow> Book \<Rightarrow> Row list" where
  "inserted x st book =
     tbl_book st @ [\<lparr>col_id = new_id x, col_title = Title book, col_author = Author book,
                      col_year = Year book, col_regdate = getdate x\<rparr>]"

text \<open>The table after the statement of \<^verbatim>\<open>UpdateBook\<close> for a decoded body and an id.\<close>

definition updated :: "Row list \<Rightarrow> string \<Rightarrow> Book \<Rightarrow> Row list" where
  "updated t i book =
     map (\<lambda>r. if col_id r = i
               then r\<lparr>col_title := Title book, col_author := Author book,
                      col_year := Year book\<rparr>
               else r) t"

section \<open>Sample inputs\<close>

text \<open>Concrete requests, states and surroundings, for the instances below. The two
  renderings of a date-time are samples in the shapes Go gives: \<^verbatim>\<open>Scan\<close> into a string
  field, and \<^verbatim>\<open>Format("2006-01-02 15:04:05")\<close>.\<close>

definition scan_sample :: "datetime \<Rightarrow> string" where
  "scan_sample t = (if t = 100 then ''2024-01-02T15:04:05Z'' else ''2024-01-01T00:00:00Z'')"

definition format_sample :: "datetime \<Rightarrow> string" where
  "format_sample t = (if t = 100 then ''2024-01-02 15:04:05'' else ''2024-01-01 00:00:00'')"

definition fine :: ext where
  "fine = \<lparr>exec_err = None, rows_err = False, query_err = False, new_id = ''2'',
           getdate = 50, scan_time = scan_sample, now_rfc3339 = ''2024-01-03T00:00:00Z''\<rparr>"

definition dune_row :: Row where
  "dune_row = \<lparr>col_id = ''1'', col_title = ''Dune'', col_author = ''Herbert'',
               col_year = 1965, col_regdate = 100\<rparr>"

definition dune :: Book where
  "dune = \<lparr>ID = ''1'', Title = ''Dune'', Author = ''Herbert'', Year = 1965,
           Regdate = ''2024-01-02T15:04:05Z''\<rparr>"

definition emma :: Book where
  "emma = \<lparr>ID = ''7'', Title = ''Emma'', Author = ''Austen'', Year = 1815,
           Regdate = ''2024-01-01T00:00:00Z''\<rparr>"

definition dune_rev :: Book where
  "dune_rev = \<lparr>ID = [], Title = ''Dune (rev)'', Author = ''Herbert'', Year = 1965,
               Regdate = []\<rparr>"

definition request_for :: "string \<Rightarrow> Book option \<Rightarrow> request" where
  "request_for i d = \<lparr>Method = ''GET'', Path = [''books'', i], Header = Map.empty,
                      Vars = [''id'' \<mapsto> i], Decoded = d\<rparr>"

definition shelf :: state where
  "shelf = \<lparr>books = [dune], tbl_book = [dune_row]\<rparr>"

definition dune_row2 :: Row where
  "dune_row2 = \<lparr>col_id = ''2'', col_title = ''Dune (rev)'', col_author = ''Herbert'',
                col_year = 1965, col_regdate = 50\<rparr>"

definition environ_ok :: "string \<rightharpoonup> string" where
  "environ_ok = [''DB_SERVER'' \<mapsto> ''db.local'', ''DB_USER'' \<mapsto> ''sa'',
                 ''DB_PASSWORD'' \<mapsto> ''pw'', ''DB_NAME'' \<mapsto> ''bz'', ''API_KEY'' \<mapsto> ''secret'']"

definition boot_ok :: boot where
  "boot_ok = \<lparr>dotenv_err = False, open_err = False, ping_err = False, probe_err = False,
              columns_err = False, select_err = False, row_scan_err = False,
              format_time = format_sample\<rparr>"

definition health_probe :: request where
  "health_probe = \<lparr>Method = ''GET'', Path = [''health''], Header = Map.empty,
                    Vars = Map.empty, Decoded = None\<rparr>"

definition list_request :: "(string \<rightharpoonup> string) \<Rightarrow> request" where
  "list_request h = \<lparr>Method = ''GET'', Path = [''books''], Header = h,
                      Vars = Map.empty, Decoded = None\<rparr>"

definition without_id :: "(string \<times> json) list \<Rightarrow> (string \<times> json) list" where
  "without_id kvs =
     filter (\<lambda>(k, v). map lower k \<noteq> ''id'' \<and> map lower k \<noteq> ''regdate'') kvs"

definition rev_fields :: "(string \<times> json) list" where
  "rev_fields = [(''title'', JString ''Dune (rev)''), (''author'', JString ''Herbert''),
                 (''year'', JNumber 1965)]"

section \<open>The statements on the table\<close>

lemma Exec_update_absent:
  "\<forall>row\<in>set t. col_id row \<noteq> i \<Longrightarrow>
   Exec_update x t ti au ye i =
     (case exec_err x of Some e \<Rightarrow> (Inl e, t) | None \<Rightarrow> (Inr 0, t))"
  by (simp add: Exec_update_def map_idI split: option.splits)

lemma Exec_delete_absent:
  "\<forall>row\<in>set t. col_id row \<noteq> i \<Longrightarrow>
   Exec_delete x t i = (case exec_err x of Some e \<Rightarrow> (Inl e, t) | None \<Rightarrow> (Inr 0, t))"
  by (simp add: Exec_delete_def split: option.splits)

lemma latest_snoc: "latest (t @ [r]) \<noteq> None"
  by (induction t) (auto split: option.splits)

lemma latest_member: "latest t = Some m \<Longrightarrow> m \<in> set t"
  by (induction t arbitrary: m) (auto split: option.splits if_splits)

section \<open>The handlers, branch by branch\<close>

lemma CreateBook_flat:
  "CreateBook x r st =
     (case Decoded r of
        None \<Rightarrow> (reply 400 (error_body BadFormat), st)
      | Some book \<Rightarrow>
          (case exec_err x of
             Some e \<Rightarrow> (reply 500 (error_body InsertFailed), st)
           | None \<Rightarrow>
              (case QueryRow_latest x (inserted x st book) of
                 None \<Rightarrow> (reply 500 (error_body InsertedReadFailed),
                           st\<lparr>tbl_book := inserted x st book\<rparr>)
               | Some newBook \<Rightarrow>
                   (reply 201 (BookJson newBook),
                    \<lparr>books = books st @ [newBook], tbl_book = inserted x st book\<rparr>))))"
  by (simp add: CreateBook_def Exec_insert_def inserted_def split: option.splits)

lemma CreateBook_main_go_flat:
  "CreateBook_main_go x r st =
     (case Decoded r of
        None \<Rightarrow> (reply 400 (error_body BadFormat), st)
      | Some book \<Rightarrow>
          (case exec_err x of
             Some e \<Rightarrow> (reply 500 (error_body (Detail InsertFailed e)), st)
           | None \<Rightarrow>
              (case QueryRow_latest x (inserted x st book) of
                 None \<Rightarrow> (reply 500 (error_body InsertedReadFailed),
                           st\<lparr>tbl_book := inserted x st book\<rparr>)
               | Some newBook \<Rightarrow>
                   (reply 201 (BookJson newBook),
                    \<lparr>books = books st @ [newBook], tbl_book = inserted x st book\<rparr>))))"
  by (simp add: CreateBook_main_go_def Exec_insert_def inserted_def split: option.splits)

lemma CreateBook_main_go_differs: "CreateBook_main_go \<noteq> CreateBook"
proof
  assume "CreateBook_main_go = CreateBook"
  then have "CreateBook_main_go (fine\<lparr>exec_err := Some ''e''\<rparr>) (request_for [] (Some dune))
      \<lparr>books = [], tbl_book = []\<rparr> =
    CreateBook (fine\<lparr>exec_err := Some ''e''\<rparr>) (request_for [] (Some dune))
      \<lparr>books = [], tbl_book = []\<rparr>"
    by simp
  then show False
    by (simp add: CreateBook_flat CreateBook_main_go_flat request_for_def reply_def
        error_body_def)
qed

section \<open>Decoding the body\<close>

lemma lower_keys:
  "map lower ''id'' = ''id''" "map lower ''title'' = ''title''"
  "map lower ''author'' = ''author''" "map lower ''year'' = ''year''"
  "map lower ''regdate'' = ''regdate''"
  by (simp_all add: lower_def)

lemma lower_upper_case: "map lower ''ID'' = ''id''"
  by code_simp

lemma Decode_rev: "Decode (Some (JObject rev_fields)) = Some dune_rev"
  by (simp add: Decode_def rev_fields_def set_field_def string_field_def int_field_def
      lower_def Let_def zero_Book_def dune_rev_def)

lemma set_field_named:
  assumes "map lower k = ''id'' \<or> map lower k = ''regdate''"
  shows "set_field k v b =
     (case v of
        JNull \<Rightarrow> Some b
      | JString s \<Rightarrow> Some (if map lower k = ''id'' then b\<lparr>ID := s\<rparr> else b\<lparr>Regdate := s\<rparr>)
      | _ \<Rightarrow> None)"
  using assms by (auto simp: set_field_def string_field_def split: json.splits)

lemma set_field_other:
  assumes "map lower k \<noteq> ''id''" "map lower k \<noteq> ''regdate''"
  shows "set_field k v (b\<lparr>ID := i, Regdate := d\<rparr>) =
     map_option (\<lambda>c. c\<lparr>ID := i, Regdate := d\<rparr>) (set_field k v b)"
  using assms
  by (simp add: set_field_def string_field_def int_field_def Let_def split: json.splits)

lemma decode_fields_without_id:
  "decode_fields kvs b = Some b' \<Longrightarrow>
   decode_fields (without_id kvs) (b\<lparr>ID := i, Regdate := d\<rparr>) = Some (b'\<lparr>ID := i, Regdate := d\<rparr>)"
proof (induction kvs arbitrary: b)
  case Nil
  then show ?case by (simp add: without_id_def)
next
  case (Cons kv kvs)
  obtain k v where kv: "kv = (k, v)" by (cases kv)
  from Cons.prems kv obtain b1 where
    s: "set_field k v b = Some b1" and rest: "decode_fields kvs b1 = Some b'"
    by (cases "set_field k v b") simp_all
  show ?case
  proof (cases "map lower k = ''id'' \<or> map lower k = ''regdate''")
    case True
    with s have "b1\<lparr>ID := i, Regdate := d\<rparr> = b\<lparr>ID := i, Regdate := d\<rparr>"
      by (auto simp: set_field_named split: json.splits if_splits)
    with Cons.IH [OF rest] True kv show ?thesis
      by (auto simp: without_id_def)
  next
    case False
    then have "set_field k v (b\<lparr>ID := i, Regdate := d\<rparr>) = Some (b1\<lparr>ID := i, Regdate := d\<rparr>)"
      using s by (simp add: set_field_other)
    with Cons.IH [OF rest] False kv show ?thesis
      by (simp add: without_id_def)
  qed
qed

lemma decode_fields_mistyped:
  "(k, v) \<in> set kvs \<Longrightarrow> map lower k = ''id'' \<or> map lower k = ''regdate'' \<Longrightarrow>
   v \<noteq> JNull \<Longrightarrow> \<forall>s. v \<noteq> JString s \<Longrightarrow> decode_fields kvs b = None"
proof (induction kvs arbitrary: b)
  case Nil
  then show ?case by simp
next
  case (Cons kv kvs)
  obtain k' v' where kv: "kv = (k', v')" by (cases kv)
  show ?case
  proof (cases "kv = (k, v)")
    case True
    with Cons.prems(2-4) have "set_field k v b = None"
      by (cases v) (simp_all add: set_field_named)
    with True show ?thesis by simp
  next
    case False
    with Cons.prems(1) have "(k, v) \<in> set kvs" by simp
    from Cons.IH [OF this Cons.prems(2-4)] kv show ?thesis
      by (cases "set_field k' v' b") simp_all
  qed
qed

section \<open>The branches of \<^verbatim>\<open>CreateBook\<close>\<close>

lemma CreateBook_branches:
  "(h = CreateBook \<or> h = CreateBook_main_go) \<longrightarrow>
   (Decoded r = None \<longrightarrow> status (fst (h x r st)) = 400 \<and> snd (h x r st) = st) \<and>
   (Decoded r = Some b \<longrightarrow>
      h x (r\<lparr>Decoded := Some (b\<lparr>ID := i, Regdate := d\<rparr>)\<rparr>) st = h x r st \<and>
      (exec_err x = Some e \<longrightarrow> status (fst (h x r st)) = 500 \<and> snd (h x r st) = st) \<and>
      (exec_err x = None \<longrightarrow>
         tbl_book (snd (h x r st)) =
           tbl_book st @ [\<lparr>col_id = new_id x, col_title = Title b, col_author = Author b,
                            col_year = Year b, col_regdate = getdate x\<rparr>] \<and>
         (QueryRow_latest x (tbl_book (snd (h x r st))) = None \<longrightarrow>
            status (fst (h x r st)) = 500 \<and> books (snd (h x r st)) = books st) \<and>
         (\<forall>newBook. QueryRow_latest x (tbl_book (snd (h x r st))) = Some newBook \<longrightarrow>
            fst (h x r st) = reply 201 (BookJson newBook) \<and>
            books (snd (h x r st)) = books st @ [newBook]) \<and>
         (query_err x = False \<longrightarrow>
            QueryRow_latest x (tbl_book (snd (h x r st))) \<noteq> None)))"
proof (intro impI)
  assume "h = CreateBook \<or> h = CreateBook_main_go"
  then have h: "h x q st =
      (case Decoded q of
         None \<Rightarrow> (reply 400 (error_body BadFormat), st)
       | Some book \<Rightarrow>
          (case exec_err x of
             Some e \<Rightarrow>
               (reply 500 (error_body (if h = CreateBook then InsertFailed
                                       else Detail InsertFailed e)), st)
           | None \<Rightarrow>
              (case QueryRow_latest x (inserted x st book) of
                 None \<Rightarrow> (reply 500 (error_body InsertedReadFailed),
                           st\<lparr>tbl_book := inserted x st book\<rparr>)
               | Some newBook \<Rightarrow>
                   (reply 201 (BookJson newBook),
                    \<lparr>books = books st @ [newBook], tbl_book = inserted x st book\<rparr>))))" for q
    using CreateBook_main_go_differs
    by (auto simp: CreateBook_flat CreateBook_main_go_flat split: option.splits)
  have ins: "inserted x st (b\<lparr>ID := i, Regdate := d\<rparr>) = inserted x st b"
    by (simp add: inserted_def)
  have live: "QueryRow_latest x (inserted x st b) \<noteq> None" if "query_err x = False"
    using that by (simp add: QueryRow_latest_def inserted_def latest_snoc)
  show "(Decoded r = None \<longrightarrow> status (fst (h x r st)) = 400 \<and> snd (h x r st) = st) \<and>
   (Decoded r = Some b \<longrightarrow>
      h x (r\<lparr>Decoded := Some (b\<lparr>ID := i, Regdate := d\<rparr>)\<rparr>) st = h x r st \<and>
      (exec_err x = Some e \<longrightarrow> status (fst (h x r st)) = 500 \<and> snd (h x r st) = st) \<and>
      (exec_err x = None \<longrightarrow>
         tbl_book (snd (h x r st)) =
           tbl_book st @ [\<lparr>col_id = new_id x, col_title = Title b, col_author = Author b,
                            col_year = Year b, col_regdate = getdate x\<rparr>] \<and>
         (QueryRow_latest x (tbl_book (snd (h x r st))) = None \<longrightarrow>
            status (fst (h x r st)) = 500 \<and> books (snd (h x r st)) = books st) \<and>
         (\<forall>newBook. QueryRow_latest x (tbl_book (snd (h x r st))) = Some newBook \<longrightarrow>
            fst (h x r st) = reply 201 (BookJson newBook) \<and>
            books (snd (h x r st)) = books st @ [newBook]) \<and>
         (query_err x = False \<longrightarrow>
            QueryRow_latest x (tbl_book (snd (h x r st))) \<noteq> None)))"
  proof (intro conjI impI allI)
    show "status (fst (h x r st)) = 400" if "Decoded r = None"
      using that by (simp add: h reply_def)
    show "snd (h x r st) = st" if "Decoded r = None"
      using that by (simp add: h)
    show "h x (r\<lparr>Decoded := Some (b\<lparr>ID := i, Regdate := d\<rparr>)\<rparr>) st = h x r st"
      if "Decoded r = Some b"
      using that by (simp add: h ins split: option.splits)
    show "status (fst (h x r st)) = 500" if "Decoded r = Some b" "exec_err x = Some e"
      using that by (simp add: h reply_def)
    show "snd (h x r st) = st" if "Decoded r = Some b" "exec_err x = Some e"
      using that by (simp add: h)
    have t: "tbl_book (snd (h x r st)) = inserted x st b"
      if "Decoded r = Some b" "exec_err x = None"
      using that by (simp add: h split: option.splits)
    show "tbl_book (snd (h x r st)) =
           tbl_book st @ [\<lparr>col_id = new_id x, col_title = Title b, col_author = Author b,
                            col_year = Year b, col_regdate = getdate x\<rparr>]"
      if "Decoded r = Some b" "exec_err x = None"
      using t that by (simp add: inserted_def)
    show "status (fst (h x r st)) = 500"
      if "Decoded r = Some b" "exec_err x = None"
        "QueryRow_latest x (tbl_book (snd (h x r st))) = None"
      using that t by (simp add: h reply_def)
    show "books (snd (h x r st)) = books st"
      if "Decoded r = Some b" "exec_err x = None"
        "QueryRow_latest x (tbl_book (snd (h x r st))) = None"
      using that t by (simp add: h)
    show "fst (h x r st) = reply 201 (BookJson newBook)"
      if "Decoded r = Some b" "exec_err x = None"
        "QueryRow_latest x (tbl_book (snd (h x r st))) = Some newBook" for newBook
      using that t by (simp add: h)
    show "books (snd (h x r st)) = books st @ [newBook]"
      if "Decoded r = Some b" "exec_err x = None"
        "QueryRow_latest x (tbl_book (snd (h x r st))) = Some newBook" for newBook
      using that t by (simp add: h)
    show "QueryRow_latest x (tbl_book (snd (h x r st))) \<noteq> None"
      if "Decoded r = Some b" "exec_err x = None" "query_err x = False"
      using that t live by simp
  qed
qed

section \<open>The loops over the cache\<close>

lemma GetBook_loop_first:
  "\<forall>b\<in>set xs. ID b \<noteq> i \<Longrightarrow> ID e = i \<Longrightarrow> GetBook_loop i (xs @ e # ys) = Some e"
  by (induction xs) auto

lemma GetBook_loop_none: "\<forall>b\<in>set bs. ID b \<noteq> i \<Longrightarrow> GetBook_loop i bs = None"
  by (induction bs) auto

lemma GetBook_loop_Some: "GetBook_loop i bs = Some e \<Longrightarrow> e \<in> set bs \<and> ID e = i"
  by (induction bs) (auto split: if_splits)

lemma UpdateBook_loop_first:
  "\<forall>b\<in>set xs. ID b \<noteq> i \<Longrightarrow> ID e = i \<Longrightarrow>
   UpdateBook_loop i u (xs @ e # ys) = xs @ u # ys"
  by (induction xs) auto

lemma UpdateBook_loop_none: "\<forall>b\<in>set bs. ID b \<noteq> i \<Longrightarrow> UpdateBook_loop i u bs = bs"
  by (induction bs) auto

lemma DeleteBook_loop_first:
  "\<forall>b\<in>set xs. ID b \<noteq> i \<Longrightarrow> ID e = i \<Longrightarrow> DeleteBook_loop i (xs @ e # ys) = xs @ ys"
  by (induction xs) auto

lemma DeleteBook_loop_none: "\<forall>b\<in>set bs. ID b \<noteq> i \<Longrightarrow> DeleteBook_loop i bs = bs"
  by (induction bs) auto

section \<open>What each handler leaves in the cache\<close>

lemma UpdateBook_books:
  "books (snd (UpdateBook x r st)) =
     (if status (fst (UpdateBook x r st)) = 200
      then (case body (fst (UpdateBook x r st)) of
              BookJson u \<Rightarrow> UpdateBook_loop (Get (Vars r) ''id'') u (books st)
            | _ \<Rightarrow> books st)
      else books st)"
  by (auto simp: UpdateBook_def reply_def Let_def split: option.splits sum.splits prod.splits)

lemma UpdateBook_200_body:
  "status (fst (UpdateBook x r st)) = 200 \<Longrightarrow>
   \<exists>u. fst (UpdateBook x r st) = reply 200 (BookJson u)"
  by (auto simp: UpdateBook_def reply_def Let_def
           split: option.splits sum.splits prod.splits if_splits)

lemma DeleteBook_books:
  "books (snd (DeleteBook x r st)) =
     (if status (fst (DeleteBook x r st)) = 200
      then DeleteBook_loop (Get (Vars r) ''id'') (books st)
      else books st)"
  by (auto simp: DeleteBook_def reply_def Let_def split: option.splits sum.splits prod.splits)

lemma updated_ids: "map col_id (updated t i b) = map col_id t"
  by (induction t) (auto simp: updated_def)

lemma updated_regdates: "map col_regdate (updated t i b) = map col_regdate t"
  by (induction t) (auto simp: updated_def)

lemma updated_find:
  "find (\<lambda>q. col_id q = i) (updated t i b) =
     map_option (\<lambda>row. row\<lparr>col_title := Title b, col_author := Author b, col_year := Year b\<rparr>)
       (find (\<lambda>q. col_id q = i) t)"
  by (induction t) (auto simp: updated_def)


lemma find_id: "find (\<lambda>q. col_id q = i) t = Some row \<Longrightarrow> col_id row = i \<and> row \<in> set t"
  by (induction t) (auto split: if_splits)

lemma find_absent: "(find (\<lambda>q. col_id q = i) t = None) = (\<forall>row\<in>set t. col_id row \<noteq> i)"
  by (induction t) auto

lemma updated_rows:
  "q \<in> set (updated t i b) \<Longrightarrow> col_id q = i \<Longrightarrow>
   col_title q = Title b \<and> col_author q = Author b \<and> col_year q = Year b"
proof (induction t)
  case Nil
  then show ?case by (simp add: updated_def)
next
  case (Cons r t)
  have step: "updated (r # t) i b =
      (if col_id r = i
       then r\<lparr>col_title := Title b, col_author := Author b, col_year := Year b\<rparr>
       else r) # updated t i b"
    by (simp add: updated_def)
  show ?case
  proof (cases "q \<in> set (updated t i b)")
    case True
    with Cons show ?thesis by blast
  next
    case False
    with Cons.prems(1) step
    have q: "q = (if col_id r = i
       then r\<lparr>col_title := Title b, col_author := Author b, col_year := Year b\<rparr>
       else r)"
      by simp
    show ?thesis
    proof (cases "col_id r = i")
      case True
      with q show ?thesis by simp
    next
      case False
      with q Cons.prems(2) show ?thesis by simp
    qed
  qed
qed

lemma UpdateBook_flat:
  "UpdateBook x r st =
     (case Decoded r of
        None \<Rightarrow> (reply 400 (error_body BadFormat), st)
      | Some book \<Rightarrow>
          (case exec_err x of
             Some e \<Rightarrow> (reply 500 (error_body UpdateFailed), st)
           | None \<Rightarrow>
               if rows_err x
               then (reply 500 (error_body UpdateCheckFailed),
                     st\<lparr>tbl_book := updated (tbl_book st) (Get (Vars r) ''id'') book\<rparr>)
               else if find (\<lambda>q. col_id q = Get (Vars r) ''id'') (tbl_book st) = None
               then (reply 404 (error_body UpdateNotFound),
                     st\<lparr>tbl_book := updated (tbl_book st) (Get (Vars r) ''id'') book\<rparr>)
               else
                 (case QueryRow_by_id x (updated (tbl_book st) (Get (Vars r) ''id'') book)
                         (Get (Vars r) ''id'') of
                    None \<Rightarrow>
                      (reply 500 (error_body UpdatedReadFailed),
                       st\<lparr>tbl_book := updated (tbl_book st) (Get (Vars r) ''id'') book\<rparr>)
                  | Some updatedBook \<Rightarrow>
                      (reply 200 (BookJson updatedBook),
                       \<lparr>books = UpdateBook_loop (Get (Vars r) ''id'') updatedBook (books st),
                        tbl_book = updated (tbl_book st) (Get (Vars r) ''id'') book\<rparr>))))"
proof (cases "Decoded r")
  case None
  then show ?thesis by (simp add: UpdateBook_def)
next
  case body: (Some book)
  show ?thesis
  proof (cases "exec_err x")
    case (Some e)
    with body show ?thesis by (simp add: UpdateBook_def Exec_update_def)
  next
    case None
    then have "Exec_update x (tbl_book st) (Title book) (Author book) (Year book)
        (Get (Vars r) ''id'') =
      (Inr (length (filter (\<lambda>q. col_id q = Get (Vars r) ''id'') (tbl_book st))),
       updated (tbl_book st) (Get (Vars r) ''id'') book)"
      by (simp add: Exec_update_def updated_def)
    with body None show ?thesis
      by (simp add: UpdateBook_def RowsAffected_def find_absent filter_empty_conv Let_def)
  qed
qed

lemma DeleteBook_flat:
  "DeleteBook x r st =
     (case exec_err x of
        Some e \<Rightarrow> (reply 500 (error_body DeleteFailed), st)
      | None \<Rightarrow>
          if rows_err x
          then (reply 500 (error_body DeleteCheckFailed),
                st\<lparr>tbl_book := filter (\<lambda>q. col_id q \<noteq> Get (Vars r) ''id'') (tbl_book st)\<rparr>)
          else if find (\<lambda>q. col_id q = Get (Vars r) ''id'') (tbl_book st) = None
          then (reply 404 (error_body DeleteNotFound),
                st\<lparr>tbl_book := filter (\<lambda>q. col_id q \<noteq> Get (Vars r) ''id'') (tbl_book st)\<rparr>)
          else (reply 200 (Object [(''message'', Deleted)]),
                \<lparr>books = DeleteBook_loop (Get (Vars r) ''id'') (books st),
                 tbl_book = filter (\<lambda>q. col_id q \<noteq> Get (Vars r) ''id'') (tbl_book st)\<rparr>))"
proof (cases "exec_err x")
  case (Some e)
  then show ?thesis by (simp add: DeleteBook_def Exec_delete_def)
next
  case None
  then show ?thesis
    by (simp add: DeleteBook_def Exec_delete_def RowsAffected_def find_absent
        filter_empty_conv Let_def)
qed


lemma GetBook_loop_after_update:
  "ID u = i \<Longrightarrow>
   GetBook_loop i (UpdateBook_loop i u bs) =
     (case GetBook_loop i bs of None \<Rightarrow> None | Some e \<Rightarrow> Some u)"
  by (induction bs) simp_all

lemma GetBook_loop_absent: "(GetBook_loop i bs = None) = (\<forall>b\<in>set bs. ID b \<noteq> i)"
  by (induction bs) simp_all


lemma DeleteBook_loop_single:
  "length (filter (\<lambda>b. ID b = i) bs) \<le> 1 \<Longrightarrow> \<forall>b\<in>set (DeleteBook_loop i bs). ID b \<noteq> i"
proof (induction bs)
  case Nil
  then show ?case by simp
next
  case (Cons c cs)
  show ?case
  proof (cases "ID c = i")
    case True
    then have "filter (\<lambda>b. ID b = i) (c # cs) = c # filter (\<lambda>b. ID b = i) cs"
      by simp
    with Cons.prems have "length (filter (\<lambda>b. ID b = i) cs) = 0"
      by simp
    then have "\<forall>b\<in>set cs. ID b \<noteq> i"
      by (simp add: filter_empty_conv)
    moreover from True have "DeleteBook_loop i (c # cs) = cs"
      by simp
    ultimately show ?thesis by simp
  next
    case False
    then have "filter (\<lambda>b. ID b = i) (c # cs) = filter (\<lambda>b. ID b = i) cs"
      by simp
    with Cons.prems have "length (filter (\<lambda>b. ID b = i) cs) \<le> 1"
      by simp
    with Cons.IH have "\<forall>b\<in>set (DeleteBook_loop i cs). ID b \<noteq> i" .
    moreover from False have "DeleteBook_loop i (c # cs) = c # DeleteBook_loop i cs"
      by simp
    ultimately show ?thesis using False by simp
  qed
qed

lemma GetBook_loop_append:
  "GetBook_loop i (xs @ ys) =
     (case GetBook_loop i xs of None \<Rightarrow> GetBook_loop i ys | Some b \<Rightarrow> Some b)"
  by (induction xs) simp_all

lemma CreateBook_201:
  assumes "status (fst (CreateBook x r st)) = 201"
  shows "\<exists>book m. Decoded r = Some book \<and> exec_err x = None \<and> query_err x = False \<and>
           latest (inserted x st book) = Some m \<and>
           CreateBook x r st =
             (reply 201 (BookJson (Scan x m)),
              \<lparr>books = books st @ [Scan x m], tbl_book = inserted x st book\<rparr>)"
proof (cases "Decoded r")
  case None
  with assms show ?thesis by (simp add: CreateBook_flat reply_def)
next
  case body: (Some book)
  show ?thesis
  proof (cases "exec_err x")
    case (Some e)
    with assms body show ?thesis by (simp add: CreateBook_flat reply_def)
  next
    case None
    show ?thesis
    proof (cases "QueryRow_latest x (inserted x st book)")
      case no: None
      with assms body None show ?thesis by (simp add: CreateBook_flat reply_def)
    next
      case (Some newBook)
      then have q: "query_err x = False"
        and "\<exists>m. latest (inserted x st book) = Some m \<and> newBook = Scan x m"
        by (auto simp: QueryRow_latest_def split: if_splits)
      then obtain m where m: "latest (inserted x st book) = Some m" "newBook = Scan x m"
        by blast
      with body None Some q show ?thesis by (simp add: CreateBook_flat)
    qed
  qed
qed

lemma DeleteBook_200:
  assumes "exec_err x = None" "rows_err x = False"
    and "\<exists>row\<in>set (tbl_book st). col_id row = Get (Vars r) ''id''"
  shows "DeleteBook x r st =
           (reply 200 (Object [(''message'', Deleted)]),
            \<lparr>books = DeleteBook_loop (Get (Vars r) ''id'') (books st),
             tbl_book = filter (\<lambda>q. col_id q \<noteq> Get (Vars r) ''id'') (tbl_book st)\<rparr>)"
proof -
  from assms(3) have "(find (\<lambda>q. col_id q = Get (Vars r) ''id'') (tbl_book st) = None) = False"
    by (simp add: find_absent)
  with assms(1,2) show ?thesis by (simp only: DeleteBook_flat option.case if_False)
qed

lemma DeleteBook_loop_gone:
  "length (filter (\<lambda>b. ID b = i) bs) \<le> 1 \<Longrightarrow> GetBook_loop i (DeleteBook_loop i bs) = None"
  by (rule GetBook_loop_none) (rule DeleteBook_loop_single)

lemma UpdateBook_reread:
  "QueryRow_by_id x (updated t i b) i =
     (if query_err x then None
      else map_option
        (\<lambda>row. Scan x (row\<lparr>col_title := Title b, col_author := Author b,
                              col_year := Year b\<rparr>))
        (find (\<lambda>q. col_id q = i) t))"
  by (simp add: QueryRow_by_id_def updated_find option.map_comp comp_def)

lemma UpdateBook_200:
  assumes "status (fst (UpdateBook x r st)) = 200"
  shows "\<exists>book row. Decoded r = Some book \<and> exec_err x = None \<and> rows_err x = False \<and>
           query_err x = False \<and>
           find (\<lambda>q. col_id q = Get (Vars r) ''id'') (tbl_book st) = Some row \<and>
           UpdateBook x r st =
             (reply 200 (BookJson (Scan x (row\<lparr>col_title := Title book,
                  col_author := Author book, col_year := Year book\<rparr>))),
              \<lparr>books = UpdateBook_loop (Get (Vars r) ''id'')
                   (Scan x (row\<lparr>col_title := Title book, col_author := Author book,
                                   col_year := Year book\<rparr>)) (books st),
               tbl_book = updated (tbl_book st) (Get (Vars r) ''id'') book\<rparr>)"
proof (cases "Decoded r")
  case None
  with assms show ?thesis by (simp add: UpdateBook_flat reply_def)
next
  case body: (Some book)
  show ?thesis
  proof (cases "exec_err x")
    case (Some e)
    with assms body show ?thesis by (simp add: UpdateBook_flat reply_def)
  next
    case None
    show ?thesis
    proof (cases "rows_err x")
      case True
      with assms body None show ?thesis by (simp add: UpdateBook_flat reply_def)
    next
      case rows: False
      show ?thesis
      proof (cases "find (\<lambda>q. col_id q = Get (Vars r) ''id'') (tbl_book st)")
        case absent: None
        with assms body None rows show ?thesis by (simp add: UpdateBook_flat reply_def)
      next
        case (Some row)
        show ?thesis
        proof (cases "query_err x")
          case True
          with assms body None rows Some show ?thesis
            by (simp add: UpdateBook_flat UpdateBook_reread reply_def)
        next
          case False
          with body None rows Some show ?thesis
            by (simp add: UpdateBook_flat UpdateBook_reread)
        qed
      qed
    qed
  qed
qed

lemma UpdateBook_ok:
  assumes "Decoded r = Some book" "exec_err x = None" "rows_err x = False"
    "query_err x = False" "\<exists>row\<in>set (tbl_book st). col_id row = Get (Vars r) ''id''"
  shows "status (fst (UpdateBook x r st)) = 200"
proof -
  from assms(5) obtain row where
    "find (\<lambda>q. col_id q = Get (Vars r) ''id'') (tbl_book st) = Some row"
    using find_absent [of "Get (Vars r) ''id''" "tbl_book st"] by (cases "find (\<lambda>q. col_id q = Get (Vars r) ''id'') (tbl_book st)") auto
  with assms(1-4) show ?thesis
    by (simp add: UpdateBook_flat UpdateBook_reread reply_def)
qed

section \<open>Update and delete of a book the table holds\<close>

lemma UpdateBook_effect:
  "Decoded r = Some b \<and> Get (Vars r) ''id'' = i \<longrightarrow>
     (exec_err x = None \<and> rows_err x = False \<and> query_err x = False \<and>
      (\<exists>row\<in>set (tbl_book st). col_id row = i) \<longrightarrow>
        status (fst (UpdateBook x r st)) = 200) \<and>
     (status (fst (UpdateBook x r st)) = 200 \<longrightarrow>
        (\<exists>row. find (\<lambda>q. col_id q = i) (tbl_book st) = Some row \<and>
           fst (UpdateBook x r st) =
             reply 200 (BookJson (Scan x (row\<lparr>col_title := Title b, col_author := Author b,
                                               col_year := Year b\<rparr>))) \<and>
           (\<forall>q\<in>set (tbl_book (snd (UpdateBook x r st))).
              col_id q = i \<longrightarrow>
              col_title q = Title b \<and> col_author q = Author b \<and> col_year q = Year b) \<and>
           map col_id (tbl_book (snd (UpdateBook x r st))) = map col_id (tbl_book st) \<and>
           map col_regdate (tbl_book (snd (UpdateBook x r st))) =
             map col_regdate (tbl_book st) \<and>
           (\<forall>e. GetBook_loop i (books st) = Some e \<longrightarrow>
              (\<exists>e'. GetBook_loop i (books (snd (UpdateBook x r st))) = Some e' \<and>
                    Title e' = Title b \<and> Author e' = Author b \<and> Year e' = Year b \<and>
                    ID e' = ID e \<and> Regdate e' = scan_time x (col_regdate row) \<and>
                    (Regdate e = scan_time x (col_regdate row) \<longrightarrow>
                       Regdate e' = Regdate e))) \<and>
           (GetBook_loop i (books st) = None \<longrightarrow>
              books (snd (UpdateBook x r st)) = books st)))"
proof (intro impI conjI)
  assume h: "Decoded r = Some b \<and> Get (Vars r) ''id'' = i"
  then have b: "Decoded r = Some b" and i: "Get (Vars r) ''id'' = i"
    by blast+
  show "status (fst (UpdateBook x r st)) = 200"
    if "exec_err x = None \<and> rows_err x = False \<and> query_err x = False \<and>
        (\<exists>row\<in>set (tbl_book st). col_id row = i)"
    using that b UpdateBook_ok [of r b x st] unfolding i by blast
  assume s: "status (fst (UpdateBook x r st)) = 200"
  from UpdateBook_200 [OF s] b obtain row where
    f: "find (\<lambda>q. col_id q = i) (tbl_book st) = Some row" and
    u: "UpdateBook x r st =
          (reply 200 (BookJson (Scan x (row\<lparr>col_title := Title b, col_author := Author b,
                                            col_year := Year b\<rparr>))),
           \<lparr>books = UpdateBook_loop i
                (Scan x (row\<lparr>col_title := Title b, col_author := Author b,
                               col_year := Year b\<rparr>)) (books st),
            tbl_book = updated (tbl_book st) i b\<rparr>)"
    unfolding i by auto
  let ?u = "Scan x (row\<lparr>col_title := Title b, col_author := Author b, col_year := Year b\<rparr>)"
  from find_id [OF f] have idu: "ID ?u = i" by (simp add: Scan_def)
  have cached: "\<exists>e'. GetBook_loop i (UpdateBook_loop i ?u (books st)) = Some e' \<and>
                    Title e' = Title b \<and> Author e' = Author b \<and> Year e' = Year b \<and>
                    ID e' = ID e \<and> Regdate e' = scan_time x (col_regdate row) \<and>
                    (Regdate e = scan_time x (col_regdate row) \<longrightarrow>
                       Regdate e' = Regdate e)"
    if e: "GetBook_loop i (books st) = Some e" for e
  proof (intro exI [of _ ?u] conjI impI)
    show "GetBook_loop i (UpdateBook_loop i ?u (books st)) = Some ?u"
      by (simp add: GetBook_loop_after_update [OF idu] e)
    show "ID ?u = ID e" using idu GetBook_loop_Some [OF e] by simp
  qed (simp_all add: Scan_def)
  have miss: "UpdateBook_loop i ?u (books st) = books st" if "GetBook_loop i (books st) = None"
    using that by (simp add: GetBook_loop_absent UpdateBook_loop_none)
  have rows: "\<forall>q\<in>set (updated (tbl_book st) i b).
      col_id q = i \<longrightarrow>
      col_title q = Title b \<and> col_author q = Author b \<and> col_year q = Year b"
    using updated_rows by blast
  have r1: "fst (UpdateBook x r st) = reply 200 (BookJson ?u)"
    and r2: "tbl_book (snd (UpdateBook x r st)) = updated (tbl_book st) i b"
    and r3: "books (snd (UpdateBook x r st)) = UpdateBook_loop i ?u (books st)"
    by (simp_all add: u)
  show "\<exists>row. find (\<lambda>q. col_id q = i) (tbl_book st) = Some row \<and>
           fst (UpdateBook x r st) =
             reply 200 (BookJson (Scan x (row\<lparr>col_title := Title b, col_author := Author b,
                                               col_year := Year b\<rparr>))) \<and>
           (\<forall>q\<in>set (tbl_book (snd (UpdateBook x r st))).
              col_id q = i \<longrightarrow>
              col_title q = Title b \<and> col_author q = Author b \<and> col_year q = Year b) \<and>
           map col_id (tbl_book (snd (UpdateBook x r st))) = map col_id (tbl_book st) \<and>
           map col_regdate (tbl_book (snd (UpdateBook x r st))) =
             map col_regdate (tbl_book st) \<and>
           (\<forall>e. GetBook_loop i (books st) = Some e \<longrightarrow>
              (\<exists>e'. GetBook_loop i (books (snd (UpdateBook x r st))) = Some e' \<and>
                    Title e' = Title b \<and> Author e' = Author b \<and> Year e' = Year b \<and>
                    ID e' = ID e \<and> Regdate e' = scan_time x (col_regdate row) \<and>
                    (Regdate e = scan_time x (col_regdate row) \<longrightarrow>
                       Regdate e' = Regdate e))) \<and>
           (GetBook_loop i (books st) = None \<longrightarrow>
              books (snd (UpdateBook x r st)) = books st)"
    unfolding r1 r2 r3
  proof (rule exI [of _ row], intro conjI)
    show "find (\<lambda>q. col_id q = i) (tbl_book st) = Some row" by (rule f)
    show "reply 200 (BookJson ?u) = reply 200 (BookJson ?u)" by (rule refl)
    show "\<forall>q\<in>set (updated (tbl_book st) i b).
      col_id q = i \<longrightarrow>
      col_title q = Title b \<and> col_author q = Author b \<and> col_year q = Year b"
      by (rule rows)
    show "map col_id (updated (tbl_book st) i b) = map col_id (tbl_book st)"
      by (rule updated_ids)
    show "map col_regdate (updated (tbl_book st) i b) = map col_regdate (tbl_book st)"
      by (rule updated_regdates)
    show "\<forall>e. GetBook_loop i (books st) = Some e \<longrightarrow>
              (\<exists>e'. GetBook_loop i (UpdateBook_loop i ?u (books st)) = Some e' \<and>
                    Title e' = Title b \<and> Author e' = Author b \<and> Year e' = Year b \<and>
                    ID e' = ID e \<and> Regdate e' = scan_time x (col_regdate row) \<and>
                    (Regdate e = scan_time x (col_regdate row) \<longrightarrow>
                       Regdate e' = Regdate e))"
      using cached by blast
    show "GetBook_loop i (books st) = None \<longrightarrow>
              UpdateBook_loop i ?u (books st) = books st"
      using miss by blast
  qed
qed

lemma DeleteBook_single:
  assumes "Get (Vars r) ''id'' = i" "\<exists>row\<in>set (tbl_book st). col_id row = i"
    "exec_err x = None" "rows_err x = False"
  shows "fst (DeleteBook x r st) = reply 200 (Object [(''message'', Deleted)])"
    and "\<forall>row\<in>set (tbl_book (snd (DeleteBook x r st))). col_id row \<noteq> i"
    and "length (filter (\<lambda>b. ID b = i) (books st)) \<le> 1 \<Longrightarrow> Get (Vars r') ''id'' = i \<Longrightarrow>
         fst (GetBook x' r' (snd (DeleteBook x r st))) = reply 404 (error_body BookNotFound)"
    and "length (filter (\<lambda>b. ID b = i) (books st)) \<le> 1 \<Longrightarrow>
         fst (GetBooks x'' r'' (snd (DeleteBook x r st))) =
           reply 200 (BooksJson (DeleteBook_loop i (books st))) \<and>
         i \<notin> ID ` set (DeleteBook_loop i (books st))"
proof -
  let ?st' = "\<lparr>books = DeleteBook_loop i (books st),
               tbl_book = filter (\<lambda>q. col_id q \<noteq> i) (tbl_book st)\<rparr>"
  from assms have d: "DeleteBook x r st = (reply 200 (Object [(''message'', Deleted)]), ?st')"
    using DeleteBook_200 [of x st r] by blast
  show "fst (DeleteBook x r st) = reply 200 (Object [(''message'', Deleted)])"
    by (simp add: d)
  show "\<forall>row\<in>set (tbl_book (snd (DeleteBook x r st))). col_id row \<noteq> i"
    by (simp add: d)
  show "fst (GetBook x' r' (snd (DeleteBook x r st))) = reply 404 (error_body BookNotFound)"
    if a: "length (filter (\<lambda>b. ID b = i) (books st)) \<le> 1" and g: "Get (Vars r') ''id'' = i"
  proof -
    have "GetBook_loop (Get (Vars r') ''id'') (DeleteBook_loop i (books st)) = None"
      unfolding g by (rule DeleteBook_loop_gone [OF a])
    then show ?thesis by (simp add: d GetBook_def Let_def)
  qed
  show "fst (GetBooks x'' r'' (snd (DeleteBook x r st))) =
           reply 200 (BooksJson (DeleteBook_loop i (books st))) \<and>
         i \<notin> ID ` set (DeleteBook_loop i (books st))"
    if a: "length (filter (\<lambda>b. ID b = i) (books st)) \<le> 1"
  proof -
    from DeleteBook_loop_single [OF a]
    have "i \<notin> ID ` set (DeleteBook_loop i (books st))" by blast
    then show ?thesis by (simp add: d GetBooks_def)
  qed
qed


section \<open>The middleware, the routes and start-up\<close>

lemma authMiddleware_rejects:
  "Get (Header r) ''X-API-Key'' = [] \<or> Get (Header r) ''X-API-Key'' \<noteq> apiKey \<Longrightarrow>
   authMiddleware apiKey next x r st =
     (reply 401 (error_body (if Get (Header r) ''X-API-Key'' = [] then KeyRequired
                             else KeyInvalid)), st)"
  by (auto simp: authMiddleware_def Let_def)

lemma authMiddleware_forwards:
  "Get (Header r) ''X-API-Key'' \<noteq> [] \<Longrightarrow> Get (Header r) ''X-API-Key'' = apiKey \<Longrightarrow>
   authMiddleware apiKey next x r st = next x r st"
  by (simp add: authMiddleware_def Let_def)

lemma authMiddleware_main_go_eq:
  "authMiddleware_main_go environ = authMiddleware (Get environ ''API_KEY'')"
  by (intro ext) (simp add: authMiddleware_main_go_def authMiddleware_def)

lemma empty_secret_rejects:
  "Get environ ''API_KEY'' = [] \<Longrightarrow>
   authMiddleware_main_go environ nxt x r st =
     (reply 401 (error_body (if Get (Header r) ''X-API-Key'' = [] then KeyRequired
                             else KeyInvalid)), st)"
  unfolding authMiddleware_main_go_eq by (rule authMiddleware_rejects) auto

lemma router_rejects:
  assumes "protected r"
    and "Get (Header r) ''X-API-Key'' = [] \<or> Get (Header r) ''X-API-Key'' \<noteq> apiKey"
  shows "router apiKey x r st =
     (reply 401 (error_body (if Get (Header r) ''X-API-Key'' = [] then KeyRequired
                             else KeyInvalid)), st)"
proof -
  have v: "authMiddleware apiKey nxt x (r\<lparr>Vars := m\<rparr>) st =
     (reply 401 (error_body (if Get (Header r) ''X-API-Key'' = [] then KeyRequired
                             else KeyInvalid)), st)" for nxt m
    using assms(2) authMiddleware_rejects [of "r\<lparr>Vars := m\<rparr>" apiKey nxt x st] by simp
  have w: "authMiddleware apiKey nxt x r st =
     (reply 401 (error_body (if Get (Header r) ''X-API-Key'' = [] then KeyRequired
                             else KeyInvalid)), st)" for nxt
    using assms(2) by (rule authMiddleware_rejects)
  from assms(1) show ?thesis
    by (auto simp: router_def protected_def v w split: list.splits)
qed

lemma router_main_go_rejects:
  assumes "protected r"
    and "Get (Header r) ''X-API-Key'' = [] \<or>
         Get (Header r) ''X-API-Key'' \<noteq> Get environ ''API_KEY''"
  shows "router_main_go environ x r st =
     (reply 401 (error_body (if Get (Header r) ''X-API-Key'' = [] then KeyRequired
                             else KeyInvalid)), st)"
proof -
  have v: "authMiddleware (Get environ ''API_KEY'') nxt x (r\<lparr>Vars := m\<rparr>) st =
     (reply 401 (error_body (if Get (Header r) ''X-API-Key'' = [] then KeyRequired
                             else KeyInvalid)), st)" for nxt m
    using assms(2)
      authMiddleware_rejects [of "r\<lparr>Vars := m\<rparr>" "Get environ ''API_KEY''" nxt x st]
    by simp
  have w: "authMiddleware (Get environ ''API_KEY'') nxt x r st =
     (reply 401 (error_body (if Get (Header r) ''X-API-Key'' = [] then KeyRequired
                             else KeyInvalid)), st)" for nxt
    using assms(2) by (rule authMiddleware_rejects)
  from assms(1) show ?thesis
    by (auto simp: router_main_go_def authMiddleware_main_go_eq protected_def v w
        split: list.splits)
qed

lemma health_open:
  "Method r = ''GET'' \<Longrightarrow> Path r = [''health''] \<Longrightarrow>
   router apiKey x r st =
     (reply 200 (Object [(''status'', Lit ''healthy''), (''time'', Lit (now_rfc3339 x))]), st)"
  by (simp add: router_def HealthCheck_def cleanPath_def)

lemma main_serves:
  "main environ bt rows = Some srv \<Longrightarrow>
   \<exists>config. loadConfig environ = Some config \<and> Serve srv = router (APIKey config) \<and>
            Addr srv = '':'' @ Port config"
  by (auto simp: main_def split: option.splits if_splits)

lemma loadConfig_required:
  "Get environ ''DB_SERVER'' = [] \<or> Get environ ''DB_USER'' = [] \<or>
   Get environ ''DB_PASSWORD'' = [] \<or> Get environ ''DB_NAME'' = [] \<or>
   Get environ ''API_KEY'' = [] \<Longrightarrow>
   loadConfig environ = None \<and> main environ bt rows = None"
  by (auto simp: main_def loadConfig_def getEnv_def Let_def)

lemma loadConfig_Some:
  "loadConfig environ = Some config \<Longrightarrow>
   APIKey config = Get environ ''API_KEY'' \<and> APIKey config \<noteq> [] \<and>
   Port config = (if Get environ ''PORT'' = [] then ''8000'' else Get environ ''PORT'')"
  by (auto simp: loadConfig_def getEnv_def Let_def split: if_splits)

lemma default_port:
  "main environ bt rows = Some srv \<Longrightarrow> environ ''PORT'' = None \<Longrightarrow> Addr srv = '':8000''"
  using main_serves [of environ bt rows srv] loadConfig_Some [of environ]
  by (auto simp: Get_def)

section \<open>Claims\<close>

text \<open>
  C10. In every cache, also one that holds several books with one id: \<^verbatim>\<open>GetBook\<close>
  answers with the first book of the cache that has the id; an \<^verbatim>\<open>UpdateBook\<close> that
  answers 200 puts the book it returns in the place of that first book and leaves the
  books before and after it as they were; a \<^verbatim>\<open>DeleteBook\<close> that answers 200 takes
  that first book out and keeps the others in their order. When no book of the cache
  has the id, \<^verbatim>\<open>GetBook\<close> answers 404 and neither handler changes the cache.
\<close>

theorem first_match_only:
  "(books st = xs @ e # ys \<and> (\<forall>b\<in>set xs. ID b \<noteq> i) \<and> ID e = i \<and>
    Get (Vars r) ''id'' = i \<longrightarrow>
      GetBook x r st = (reply 200 (BookJson e), st) \<and>
      (status (fst (UpdateBook x r st)) = 200 \<longrightarrow>
         (\<exists>u. fst (UpdateBook x r st) = reply 200 (BookJson u) \<and>
              books (snd (UpdateBook x r st)) = xs @ u # ys)) \<and>
      (status (fst (DeleteBook x r st)) = 200 \<longrightarrow>
         books (snd (DeleteBook x r st)) = xs @ ys))
   \<and> ((\<forall>b\<in>set (books st). ID b \<noteq> i) \<and> Get (Vars r) ''id'' = i \<longrightarrow>
      status (fst (GetBook x r st)) = 404 \<and>
      books (snd (UpdateBook x r st)) = books st \<and>
      books (snd (DeleteBook x r st)) = books st)"
proof (intro conjI impI)
  assume h: "books st = xs @ e # ys \<and> (\<forall>b\<in>set xs. ID b \<noteq> i) \<and> ID e = i \<and>
    Get (Vars r) ''id'' = i"
  show "GetBook x r st = (reply 200 (BookJson e), st)"
    using h by (simp add: GetBook_def GetBook_loop_first)
  show "books (snd (DeleteBook x r st)) = xs @ ys"
    if "status (fst (DeleteBook x r st)) = 200"
    using h that by (simp add: DeleteBook_books DeleteBook_loop_first)
  show "\<exists>u. fst (UpdateBook x r st) = reply 200 (BookJson u) \<and>
            books (snd (UpdateBook x r st)) = xs @ u # ys"
    if s: "status (fst (UpdateBook x r st)) = 200"
  proof -
    from UpdateBook_200_body [OF s]
    obtain u where u: "fst (UpdateBook x r st) = reply 200 (BookJson u)" ..
    have "books (snd (UpdateBook x r st)) = UpdateBook_loop i u (books st)"
      using h s u by (simp add: UpdateBook_books reply_def)
    with h u show ?thesis by (simp add: UpdateBook_loop_first)
  qed
next
  assume h: "(\<forall>b\<in>set (books st). ID b \<noteq> i) \<and> Get (Vars r) ''id'' = i"
  show "status (fst (GetBook x r st)) = 404"
    using h by (simp add: GetBook_def GetBook_loop_none reply_def)
  show "books (snd (DeleteBook x r st)) = books st"
    using h by (simp add: DeleteBook_books DeleteBook_loop_none)
  show "books (snd (UpdateBook x r st)) = books st"
    using h by (simp add: UpdateBook_books UpdateBook_loop_none split: body.splits)
qed

text \<open>The instance: a cache holding the book with id 1 twice, after another book.\<close>

theorem first_match_only_witness:
  "GetBook fine (request_for ''1'' (Some dune_rev))
     \<lparr>books = [emma, dune, dune], tbl_book = [dune_row]\<rparr>
     = (reply 200 (BookJson dune), \<lparr>books = [emma, dune, dune], tbl_book = [dune_row]\<rparr>) \<and>
   status (fst (UpdateBook fine (request_for ''1'' (Some dune_rev))
     \<lparr>books = [emma, dune, dune], tbl_book = [dune_row]\<rparr>)) = 200 \<and>
   books (snd (UpdateBook fine (request_for ''1'' (Some dune_rev))
     \<lparr>books = [emma, dune, dune], tbl_book = [dune_row]\<rparr>))
     = [emma, dune\<lparr>Title := ''Dune (rev)''\<rparr>, dune] \<and>
   status (fst (DeleteBook fine (request_for ''1'' (Some dune_rev))
     \<lparr>books = [emma, dune, dune], tbl_book = [dune_row]\<rparr>)) = 200 \<and>
   books (snd (DeleteBook fine (request_for ''1'' (Some dune_rev))
     \<lparr>books = [emma, dune, dune], tbl_book = [dune_row]\<rparr>)) = [emma, dune]"
  using first_match_only [of "\<lparr>books = [emma, dune, dune], tbl_book = [dune_row]\<rparr>"
      "[emma]" dune "[dune]" "''1''" "request_for ''1'' (Some dune_rev)" fine]
  by (simp add: UpdateBook_def DeleteBook_def GetBook_def Exec_update_def Exec_delete_def
      RowsAffected_def QueryRow_by_id_def Scan_def reply_def Get_def request_for_def
      fine_def dune_def emma_def dune_rev_def dune_row_def scan_sample_def Let_def)

text \<open>
  C3. An \<^verbatim>\<open>UpdateBook\<close> or \<^verbatim>\<open>DeleteBook\<close> request whose id is the id of no row of the
  table leaves the cache and the table exactly as they were, whatever it answers; and
  when the statement and \<^verbatim>\<open>RowsAffected\<close> succeed, so that the count of rows is there
  and is 0, the answer is 404 (for \<^verbatim>\<open>UpdateBook\<close>, which decodes the body first, when
  the body decodes).
\<close>

theorem absent_id_not_found:
  "(\<forall>row\<in>set (tbl_book st). col_id row \<noteq> Get (Vars r) ''id'') \<longrightarrow>
     snd (UpdateBook x r st) = st \<and> snd (DeleteBook x r st) = st \<and>
     (exec_err x = None \<and> rows_err x = False \<longrightarrow>
        (Decoded r \<noteq> None \<longrightarrow>
           fst (UpdateBook x r st) = reply 404 (error_body UpdateNotFound)) \<and>
        fst (DeleteBook x r st) = reply 404 (error_body DeleteNotFound))"
proof (intro impI)
  assume absent: "\<forall>row\<in>set (tbl_book st). col_id row \<noteq> Get (Vars r) ''id''"
  have u: "Exec_update x (tbl_book st) ti au ye (Get (Vars r) ''id'') =
      (case exec_err x of Some e \<Rightarrow> (Inl e, tbl_book st) | None \<Rightarrow> (Inr 0, tbl_book st))"
    for ti au ye
    using absent by (simp add: Exec_update_absent)
  have d: "Exec_delete x (tbl_book st) (Get (Vars r) ''id'') =
      (case exec_err x of Some e \<Rightarrow> (Inl e, tbl_book st) | None \<Rightarrow> (Inr 0, tbl_book st))"
    using absent by (simp add: Exec_delete_absent)
  have "snd (UpdateBook x r st) = st"
    by (simp add: UpdateBook_def u RowsAffected_def Let_def split: option.splits)
  moreover have "snd (DeleteBook x r st) = st"
    by (simp add: DeleteBook_def d RowsAffected_def Let_def split: option.splits)
  moreover have "fst (UpdateBook x r st) = reply 404 (error_body UpdateNotFound)"
    if "exec_err x = None \<and> rows_err x = False" "Decoded r \<noteq> None"
    using that by (auto simp: UpdateBook_def u RowsAffected_def Let_def)
  moreover have "fst (DeleteBook x r st) = reply 404 (error_body DeleteNotFound)"
    if "exec_err x = None \<and> rows_err x = False"
    using that by (simp add: DeleteBook_def d RowsAffected_def Let_def)
  ultimately show "snd (UpdateBook x r st) = st \<and> snd (DeleteBook x r st) = st \<and>
     (exec_err x = None \<and> rows_err x = False \<longrightarrow>
        (Decoded r \<noteq> None \<longrightarrow>
           fst (UpdateBook x r st) = reply 404 (error_body UpdateNotFound)) \<and>
        fst (DeleteBook x r st) = reply 404 (error_body DeleteNotFound))"
    by blast
qed

text \<open>The instance: id 9, with the table holding id 1 only.\<close>

theorem absent_id_not_found_witness:
  "UpdateBook fine (request_for ''9'' (Some dune_rev))
     \<lparr>books = [emma, dune], tbl_book = [dune_row]\<rparr>
     = (reply 404 (error_body UpdateNotFound),
        \<lparr>books = [emma, dune], tbl_book = [dune_row]\<rparr>) \<and>
   DeleteBook fine (request_for ''9'' None)
     \<lparr>books = [emma, dune], tbl_book = [dune_row]\<rparr>
     = (reply 404 (error_body DeleteNotFound),
        \<lparr>books = [emma, dune], tbl_book = [dune_row]\<rparr>)"
proof -
  have a: "\<forall>row\<in>set (tbl_book \<lparr>books = [emma, dune], tbl_book = [dune_row]\<rparr>).
      col_id row \<noteq> Get (Vars (request_for ''9'' d)) ''id''" for d
    by (simp add: dune_row_def request_for_def Get_def)
  have f: "exec_err fine = None \<and> rows_err fine = False"
    by (simp add: fine_def)
  have b: "Decoded (request_for ''9'' (Some dune_rev)) \<noteq> None"
    by (simp add: request_for_def)
  show ?thesis
    using absent_id_not_found [of "\<lparr>books = [emma, dune], tbl_book = [dune_row]\<rparr>"
        "request_for ''9'' (Some dune_rev)" fine] a [of "Some dune_rev"]
      absent_id_not_found [of "\<lparr>books = [emma, dune], tbl_book = [dune_row]\<rparr>"
        "request_for ''9'' None" fine] a [of None] f b
    by (simp add: prod_eq_iff)
qed

text \<open>
  C8. The claim: \<^verbatim>\<open>GET /health\<close> is answered 200 with a status and a time, without any
  credential, and the route is registered on the server. The server of \<^verbatim>\<open>part_001\<close> does
  so (\<open>health_open\<close>, \<open>main_serves\<close>). The server \<^verbatim>\<open>main\<close> of \<^verbatim>\<open>main.go\<close> starts
  registers only the five book routes: its router has no route for the path and
  answers 404.
\<close>

theorem health_main_go:
  "map_option (\<lambda>srv. Serve srv fine health_probe \<lparr>books = Loaded srv, tbl_book = [dune_row]\<rparr>)
     (main_main_go environ_ok boot_ok [dune_row]) =
   Some (reply 404 (error_body PageNotFound),
         \<lparr>books = [dune\<lparr>Regdate := ''2024-01-02 15:04:05''\<rparr>], tbl_book = [dune_row]\<rparr>)"
  by (simp add: main_main_go_def connectDB_main_go_def load_books_def load_book_def
      router_main_go_def not_found_def boot_ok_def health_probe_def format_sample_def
      dune_row_def dune_def cleanPath_def Let_def)

text \<open>
  C9. The claim: with a required configuration field empty the process does not start,
  and with the port variable unset the server listens on port 8000. \<^verbatim>\<open>main\<close> of
  \<^verbatim>\<open>part_001\<close> does both (\<open>loadConfig_required\<close>, \<open>default_port\<close>). \<^verbatim>\<open>main\<close> of \<^verbatim>\<open>main.go\<close>
  always listens on port 8000 but checks no field: with \<^verbatim>\<open>API_KEY\<close> unset, where its
  sibling stops, it starts.
\<close>

theorem start_main_go:
  "Get (environ_ok(''API_KEY'' := None)) ''API_KEY'' = [] \<and>
   map_option Addr (main_main_go (environ_ok(''API_KEY'' := None)) boot_ok [dune_row]) =
     Some '':8000'' \<and>
   main (environ_ok(''API_KEY'' := None)) boot_ok [dune_row] = None"
  by (simp add: main_main_go_def connectDB_main_go_def load_books_def boot_ok_def
      main_def loadConfig_def getEnv_def Get_def environ_ok_def Let_def)

text \<open>
  C2. The secret is a required field of the configuration, so it is not empty. Then, in
  both versions: when the header \<^verbatim>\<open>X-API-Key\<close> is absent or is not exactly the secret,
  the answer is 401, the state (cache and table) is returned as it was and the wrapped
  handler plays no part in the result, and so answers every route registered behind the
  middleware; when the header is exactly the secret, the result is the wrapped handler's
  on the same request and state.
\<close>

theorem auth_gate:
  "apiKey \<noteq> [] \<longrightarrow>
     (Header r ''X-API-Key'' = None \<or> Header r ''X-API-Key'' \<noteq> Some apiKey \<longrightarrow>
        status (fst (authMiddleware apiKey next x r st)) = 401 \<and>
        snd (authMiddleware apiKey next x r st) = st \<and>
        authMiddleware apiKey next x r st = authMiddleware apiKey next' x r st \<and>
        (protected r \<longrightarrow>
           status (fst (router apiKey x r st)) = 401 \<and> snd (router apiKey x r st) = st)) \<and>
     (Header r ''X-API-Key'' = Some apiKey \<longrightarrow>
        authMiddleware apiKey next x r st = next x r st) \<and>
     (Get environ ''API_KEY'' = apiKey \<longrightarrow>
        (Header r ''X-API-Key'' = None \<or> Header r ''X-API-Key'' \<noteq> Some apiKey \<longrightarrow>
           status (fst (authMiddleware_main_go environ next x r st)) = 401 \<and>
           snd (authMiddleware_main_go environ next x r st) = st \<and>
           authMiddleware_main_go environ next x r st =
             authMiddleware_main_go environ next' x r st \<and>
           (protected r \<longrightarrow>
              status (fst (router_main_go environ x r st)) = 401 \<and>
              snd (router_main_go environ x r st) = st)) \<and>
        (Header r ''X-API-Key'' = Some apiKey \<longrightarrow>
           authMiddleware_main_go environ next x r st = next x r st))"
proof (intro impI)
  assume secret: "apiKey \<noteq> []"
  have bad: "Get (Header r) ''X-API-Key'' = [] \<or> Get (Header r) ''X-API-Key'' \<noteq> apiKey"
    if "Header r ''X-API-Key'' = None \<or> Header r ''X-API-Key'' \<noteq> Some apiKey"
    using that by (cases "Header r ''X-API-Key''") (simp_all add: Get_def)
  have good: "Get (Header r) ''X-API-Key'' \<noteq> [] \<and> Get (Header r) ''X-API-Key'' = apiKey"
    if "Header r ''X-API-Key'' = Some apiKey"
    using that secret by (simp add: Get_def)
  have p1: "status (fst (authMiddleware apiKey nxt x r st)) = 401 \<and>
        snd (authMiddleware apiKey nxt x r st) = st \<and>
        authMiddleware apiKey nxt x r st = authMiddleware apiKey nxt' x r st \<and>
        (protected r \<longrightarrow>
           status (fst (router apiKey x r st)) = 401 \<and> snd (router apiKey x r st) = st)"
    if "Header r ''X-API-Key'' = None \<or> Header r ''X-API-Key'' \<noteq> Some apiKey"
    for nxt nxt'
  proof -
    note a = authMiddleware_rejects [OF bad [OF that]]
    have "status (fst (authMiddleware apiKey nxt x r st)) = 401"
      by (simp add: a reply_def)
    moreover have "snd (authMiddleware apiKey nxt x r st) = st"
      by (simp add: a)
    moreover have "authMiddleware apiKey nxt x r st = authMiddleware apiKey nxt' x r st"
      by (simp only: a)
    moreover have "status (fst (router apiKey x r st)) = 401 \<and> snd (router apiKey x r st) = st"
      if "protected r"
      by (simp add: router_rejects [OF that bad [OF \<open>Header r ''X-API-Key'' = None \<or>
          Header r ''X-API-Key'' \<noteq> Some apiKey\<close>]] reply_def)
    ultimately show ?thesis by blast
  qed
  have p2: "authMiddleware apiKey nxt x r st = nxt x r st"
    if "Header r ''X-API-Key'' = Some apiKey" for nxt
    using good [OF that] authMiddleware_forwards by blast
  have p3: "status (fst (authMiddleware_main_go environ nxt x r st)) = 401 \<and>
           snd (authMiddleware_main_go environ nxt x r st) = st \<and>
           authMiddleware_main_go environ nxt x r st =
             authMiddleware_main_go environ nxt' x r st \<and>
           (protected r \<longrightarrow>
              status (fst (router_main_go environ x r st)) = 401 \<and>
              snd (router_main_go environ x r st) = st)"
    if k: "Get environ ''API_KEY'' = apiKey"
      and h: "Header r ''X-API-Key'' = None \<or> Header r ''X-API-Key'' \<noteq> Some apiKey"
    for nxt nxt'
  proof -
    from bad [OF h] k
    have b: "Get (Header r) ''X-API-Key'' = [] \<or>
        Get (Header r) ''X-API-Key'' \<noteq> Get environ ''API_KEY''"
      by simp
    have "status (fst (router_main_go environ x r st)) = 401 \<and>
        snd (router_main_go environ x r st) = st"
      if "protected r"
      by (simp add: router_main_go_rejects [OF that b] reply_def)
    with p1 [OF h, of nxt nxt'] show ?thesis
      unfolding authMiddleware_main_go_eq k by blast
  qed
  have p4: "authMiddleware_main_go environ nxt x r st = nxt x r st"
    if "Get environ ''API_KEY'' = apiKey" "Header r ''X-API-Key'' = Some apiKey" for nxt
    unfolding authMiddleware_main_go_eq that(1) by (rule p2 [OF that(2)])
  from p1 p2 p3 p4 show "(Header r ''X-API-Key'' = None \<or> Header r ''X-API-Key'' \<noteq> Some apiKey \<longrightarrow>
        status (fst (authMiddleware apiKey next x r st)) = 401 \<and>
        snd (authMiddleware apiKey next x r st) = st \<and>
        authMiddleware apiKey next x r st = authMiddleware apiKey next' x r st \<and>
        (protected r \<longrightarrow>
           status (fst (router apiKey x r st)) = 401 \<and> snd (router apiKey x r st) = st)) \<and>
     (Header r ''X-API-Key'' = Some apiKey \<longrightarrow>
        authMiddleware apiKey next x r st = next x r st) \<and>
     (Get environ ''API_KEY'' = apiKey \<longrightarrow>
        (Header r ''X-API-Key'' = None \<or> Header r ''X-API-Key'' \<noteq> Some apiKey \<longrightarrow>
           status (fst (authMiddleware_main_go environ next x r st)) = 401 \<and>
           snd (authMiddleware_main_go environ next x r st) = st \<and>
           authMiddleware_main_go environ next x r st =
             authMiddleware_main_go environ next' x r st \<and>
           (protected r \<longrightarrow>
              status (fst (router_main_go environ x r st)) = 401 \<and>
              snd (router_main_go environ x r st) = st)) \<and>
        (Header r ''X-API-Key'' = Some apiKey \<longrightarrow>
           authMiddleware_main_go environ next x r st = next x r st))"
    by blast
qed

text \<open>The instances: the list request without the header, with a wrong key and with
  the right one, against the secret of the sample environment.\<close>

theorem auth_gate_witness:
  "router ''secret'' fine (list_request Map.empty) shelf =
     (reply 401 (error_body KeyRequired), shelf) \<and>
   router_main_go environ_ok fine (list_request [''X-API-Key'' \<mapsto> ''guess'']) shelf =
     (reply 401 (error_body KeyInvalid), shelf) \<and>
   authMiddleware ''secret'' GetBooks fine (list_request [''X-API-Key'' \<mapsto> ''secret'']) shelf =
     (reply 200 (BooksJson [dune]), shelf) \<and>
   authMiddleware_main_go environ_ok GetBooks fine
       (list_request [''X-API-Key'' \<mapsto> ''secret'']) shelf =
     (reply 200 (BooksJson [dune]), shelf)"
proof -
  let ?none = "list_request Map.empty"
  let ?guess = "list_request [''X-API-Key'' \<mapsto> ''guess'']"
  let ?right = "list_request [''X-API-Key'' \<mapsto> ''secret'']"
  have s: "''secret'' \<noteq> []" by simp
  have p: "protected ?none" "protected ?guess"
    by (simp_all add: protected_def list_request_def cleanPath_def)
  have k: "Get environ_ok ''API_KEY'' = ''secret''"
    by (simp add: environ_ok_def Get_def)
  have n: "Header ?none ''X-API-Key'' = None \<or> Header ?none ''X-API-Key'' \<noteq> Some ''secret''"
    by (simp add: list_request_def)
  have g: "Header ?guess ''X-API-Key'' = None \<or> Header ?guess ''X-API-Key'' \<noteq> Some ''secret''"
    by (simp add: list_request_def)
  have r: "Header ?right ''X-API-Key'' = Some ''secret''"
    by (simp add: list_request_def)
  have l: "GetBooks fine ?right shelf = (reply 200 (BooksJson [dune]), shelf)"
    by (simp add: GetBooks_def shelf_def)
  from auth_gate [of "''secret''" ?none GetBooks fine shelf GetBooks environ_ok] s n p(1)
  have "status (fst (router ''secret'' fine ?none shelf)) = 401"
    and "snd (router ''secret'' fine ?none shelf) = shelf"
    by blast+
  then have 1: "router ''secret'' fine ?none shelf = (reply 401 (error_body KeyRequired), shelf)"
    by (simp add: router_def authMiddleware_def list_request_def Get_def prod_eq_iff
        cleanPath_def)
  from auth_gate [of "''secret''" ?guess GetBooks fine shelf GetBooks environ_ok] s g p(2) k
  have "status (fst (router_main_go environ_ok fine ?guess shelf)) = 401"
    and "snd (router_main_go environ_ok fine ?guess shelf) = shelf"
    by blast+
  then have 2: "router_main_go environ_ok fine ?guess shelf =
      (reply 401 (error_body KeyInvalid), shelf)"
    unfolding authMiddleware_main_go_eq router_main_go_def k
    by (simp add: authMiddleware_def list_request_def Get_def prod_eq_iff cleanPath_def)
  from auth_gate [of "''secret''" ?right GetBooks fine shelf GetBooks environ_ok] s r k
  have "authMiddleware ''secret'' GetBooks fine ?right shelf = GetBooks fine ?right shelf"
    and "authMiddleware_main_go environ_ok GetBooks fine ?right shelf =
         GetBooks fine ?right shelf"
    by blast+
  with 1 2 l show ?thesis by simp
qed

text \<open>
  C1, as the code has it. The claim reads: from any cache and table, a \<^verbatim>\<open>CreateBook\<close>
  that answers 201 returns a book with a non-empty id, and a \<^verbatim>\<open>GetBook\<close> for that id
  right after returns the same book. \<^verbatim>\<open>CreateBook\<close> appends the book at the end of the
  cache and \<^verbatim>\<open>GetBook\<close> stops at the first book with the id, so a cache that already
  holds a book with that id answers with the older one: first below, the cache still
  holds book 1 of a table that has been emptied, and the engine numbers the new row 1.
  And \<^verbatim>\<open>CreateBook\<close> never looks at the id it scans: second below, the row comes back
  with an empty id and is returned with 201 all the same.
\<close>

theorem create_then_get_counterexample:
  "fst (CreateBook (fine\<lparr>new_id := ''1'', getdate := 200\<rparr>) (request_for [] (Some dune_rev))
         \<lparr>books = [dune], tbl_book = []\<rparr>) =
     reply 201 (BookJson \<lparr>ID = ''1'', Title = ''Dune (rev)'', Author = ''Herbert'',
                           Year = 1965, Regdate = ''2024-01-01T00:00:00Z''\<rparr>) \<and>
   fst (GetBook fine (request_for ''1'' None)
         (snd (CreateBook (fine\<lparr>new_id := ''1'', getdate := 200\<rparr>)
                 (request_for [] (Some dune_rev)) \<lparr>books = [dune], tbl_book = []\<rparr>))) =
     reply 200 (BookJson dune) \<and>
   dune \<noteq> \<lparr>ID = ''1'', Title = ''Dune (rev)'', Author = ''Herbert'',
            Year = 1965, Regdate = ''2024-01-01T00:00:00Z''\<rparr> \<and>
   fst (CreateBook (fine\<lparr>new_id := [], getdate := 200\<rparr>) (request_for [] (Some dune_rev))
         shelf) =
     reply 201 (BookJson \<lparr>ID = [], Title = ''Dune (rev)'', Author = ''Herbert'',
                           Year = 1965, Regdate = ''2024-01-01T00:00:00Z''\<rparr>)"
  by (simp add: CreateBook_flat GetBook_def QueryRow_latest_def inserted_def Scan_def
      scan_sample_def fine_def request_for_def shelf_def dune_def dune_rev_def dune_row_def
      Get_def Let_def)

text \<open>
  C1, amended. A \<^verbatim>\<open>CreateBook\<close> that answers 201 returns the row it read back from the
  table, scanned, and has appended that book to the cache. Its id is the id of that row:
  not empty when the ids of the table and the id the engine gives are not. A \<^verbatim>\<open>GetBook\<close>
  for that id right after answers 200 with the first book of the cache that has the id:
  the first such book the cache held before, when it held one, and otherwise the very
  book \<^verbatim>\<open>CreateBook\<close> returned.
\<close>

theorem create_then_get:
  "status (fst (CreateBook x r st)) = 201 \<longrightarrow>
     (\<exists>newBook.
        fst (CreateBook x r st) = reply 201 (BookJson newBook) \<and>
        books (snd (CreateBook x r st)) = books st @ [newBook] \<and>
        (\<exists>row\<in>set (tbl_book (snd (CreateBook x r st))). newBook = Scan x row) \<and>
        (new_id x \<noteq> [] \<and> (\<forall>row\<in>set (tbl_book st). col_id row \<noteq> []) \<longrightarrow>
           ID newBook \<noteq> []) \<and>
        (Get (Vars r') ''id'' = ID newBook \<longrightarrow>
           (\<forall>xs e ys.
              books st = xs @ e # ys \<and> (\<forall>b\<in>set xs. ID b \<noteq> ID newBook) \<and>
              ID e = ID newBook \<longrightarrow>
                GetBook x' r' (snd (CreateBook x r st)) =
                  (reply 200 (BookJson e), snd (CreateBook x r st))) \<and>
           ((\<forall>b\<in>set (books st). ID b \<noteq> ID newBook) \<longrightarrow>
              GetBook x' r' (snd (CreateBook x r st)) =
                (reply 200 (BookJson newBook), snd (CreateBook x r st)))))"
proof
  assume "status (fst (CreateBook x r st)) = 201"
  from CreateBook_201 [OF this] obtain book m where
    m: "latest (inserted x st book) = Some m" and
    c: "CreateBook x r st =
          (reply 201 (BookJson (Scan x m)),
           \<lparr>books = books st @ [Scan x m], tbl_book = inserted x st book\<rparr>)"
    by blast
  let ?st' = "\<lparr>books = books st @ [Scan x m], tbl_book = inserted x st book\<rparr>"
  from latest_member [OF m] have mem: "m \<in> set (inserted x st book)" .
  have row: "\<exists>row\<in>set (tbl_book ?st'). Scan x m = Scan x row"
    using mem by auto
  have id: "ID (Scan x m) \<noteq> []"
    if "new_id x \<noteq> [] \<and> (\<forall>row\<in>set (tbl_book st). col_id row \<noteq> [])"
    using mem that by (auto simp: inserted_def Scan_def)
  have first: "GetBook x' r' ?st' = (reply 200 (BookJson e), ?st')"
    if g: "Get (Vars r') ''id'' = ID (Scan x m)"
      and split: "books st = xs @ e # ys \<and> (\<forall>b\<in>set xs. ID b \<noteq> ID (Scan x m)) \<and>
        ID e = ID (Scan x m)"
    for xs e ys
  proof -
    from split have "GetBook_loop (ID (Scan x m)) (books st) = Some e"
      using GetBook_loop_first [of xs "ID (Scan x m)" e ys] by simp
    with g show ?thesis
      by (simp add: GetBook_def GetBook_loop_append Let_def)
  qed
  have same: "GetBook x' r' ?st' = (reply 200 (BookJson (Scan x m)), ?st')"
    if g: "Get (Vars r') ''id'' = ID (Scan x m)"
      and fresh: "\<forall>b\<in>set (books st). ID b \<noteq> ID (Scan x m)"
    using g GetBook_loop_none [OF fresh]
    by (simp add: GetBook_def GetBook_loop_append Let_def)
  show "\<exists>newBook.
        fst (CreateBook x r st) = reply 201 (BookJson newBook) \<and>
        books (snd (CreateBook x r st)) = books st @ [newBook] \<and>
        (\<exists>row\<in>set (tbl_book (snd (CreateBook x r st))). newBook = Scan x row) \<and>
        (new_id x \<noteq> [] \<and> (\<forall>row\<in>set (tbl_book st). col_id row \<noteq> []) \<longrightarrow>
           ID newBook \<noteq> []) \<and>
        (Get (Vars r') ''id'' = ID newBook \<longrightarrow>
           (\<forall>xs e ys.
              books st = xs @ e # ys \<and> (\<forall>b\<in>set xs. ID b \<noteq> ID newBook) \<and>
              ID e = ID newBook \<longrightarrow>
                GetBook x' r' (snd (CreateBook x r st)) =
                  (reply 200 (BookJson e), snd (CreateBook x r st))) \<and>
           ((\<forall>b\<in>set (books st). ID b \<noteq> ID newBook) \<longrightarrow>
              GetBook x' r' (snd (CreateBook x r st)) =
                (reply 200 (BookJson newBook), snd (CreateBook x r st))))"
  proof (rule exI [of _ "Scan x m"], intro conjI impI allI)
    show "fst (CreateBook x r st) = reply 201 (BookJson (Scan x m))"
      by (simp add: c)
    show "books (snd (CreateBook x r st)) = books st @ [Scan x m]"
      by (simp add: c)
    show "\<exists>row\<in>set (tbl_book (snd (CreateBook x r st))). Scan x m = Scan x row"
      using row by (simp add: c)
    show "ID (Scan x m) \<noteq> []"
      if "new_id x \<noteq> [] \<and> (\<forall>row\<in>set (tbl_book st). col_id row \<noteq> [])"
      using id that by blast
    show "GetBook x' r' (snd (CreateBook x r st)) =
             (reply 200 (BookJson e), snd (CreateBook x r st))"
      if "Get (Vars r') ''id'' = ID (Scan x m)"
        "books st = xs @ e # ys \<and> (\<forall>b\<in>set xs. ID b \<noteq> ID (Scan x m)) \<and>
         ID e = ID (Scan x m)"
      for xs e ys
      using first [OF that] by (simp add: c)
    show "GetBook x' r' (snd (CreateBook x r st)) =
             (reply 200 (BookJson (Scan x m)), snd (CreateBook x r st))"
      if "Get (Vars r') ''id'' = ID (Scan x m)"
        "\<forall>b\<in>set (books st). ID b \<noteq> ID (Scan x m)"
      using same that by (simp add: c)
  qed
qed

text \<open>The instances: the book created on the sample shelf gets id 2 and is read back;
  with the engine giving id 1 again, book 1 of the shelf is what is read back.\<close>

theorem create_then_get_witness:
  "fst (CreateBook (fine\<lparr>getdate := 200\<rparr>) (request_for [] (Some dune_rev)) shelf) =
     reply 201 (BookJson \<lparr>ID = ''2'', Title = ''Dune (rev)'', Author = ''Herbert'',
                           Year = 1965, Regdate = ''2024-01-01T00:00:00Z''\<rparr>) \<and>
   fst (GetBook fine (request_for ''2'' None)
         (snd (CreateBook (fine\<lparr>getdate := 200\<rparr>) (request_for [] (Some dune_rev)) shelf))) =
     reply 200 (BookJson \<lparr>ID = ''2'', Title = ''Dune (rev)'', Author = ''Herbert'',
                           Year = 1965, Regdate = ''2024-01-01T00:00:00Z''\<rparr>) \<and>
   fst (GetBook fine (request_for ''1'' None)
         (snd (CreateBook (fine\<lparr>new_id := ''1'', getdate := 200\<rparr>)
                 (request_for [] (Some dune_rev)) shelf))) =
     reply 200 (BookJson dune)"
proof -
  let ?x = "fine\<lparr>getdate := 200\<rparr>"
  let ?y = "fine\<lparr>new_id := ''1'', getdate := 200\<rparr>"
  let ?r = "request_for [] (Some dune_rev)"
  let ?nb = "\<lparr>ID = ''2'', Title = ''Dune (rev)'', Author = ''Herbert'',
              Year = 1965, Regdate = ''2024-01-01T00:00:00Z''\<rparr>"
  let ?ob = "\<lparr>ID = ''1'', Title = ''Dune (rev)'', Author = ''Herbert'',
              Year = 1965, Regdate = ''2024-01-01T00:00:00Z''\<rparr>"
  have run: "fst (CreateBook ?x ?r shelf) = reply 201 (BookJson ?nb)"
    and run1: "fst (CreateBook ?y ?r shelf) = reply 201 (BookJson ?ob)"
    by (simp_all add: CreateBook_flat QueryRow_latest_def inserted_def Scan_def
        scan_sample_def fine_def request_for_def shelf_def dune_row_def dune_rev_def)
  have s: "status (fst (CreateBook ?x ?r shelf)) = 201"
    and s1: "status (fst (CreateBook ?y ?r shelf)) = 201"
    by (simp_all add: run run1 reply_def)
  have g: "Get (Vars (request_for ''2'' None)) ''id'' = ID ?nb"
    and g1: "Get (Vars (request_for ''1'' None)) ''id'' = ID ?ob"
    by (simp_all add: request_for_def Get_def)
  have fresh: "\<forall>b\<in>set (books shelf). ID b \<noteq> ID ?nb"
    by (simp add: shelf_def dune_def)
  have held: "books shelf = [] @ dune # [] \<and> (\<forall>b\<in>set []. ID b \<noteq> ID ?ob) \<and>
      ID dune = ID ?ob"
    by (simp add: shelf_def dune_def)
  from create_then_get [of ?x ?r shelf "request_for ''2'' None" fine] s
  obtain newBook where
    nb: "fst (CreateBook ?x ?r shelf) = reply 201 (BookJson newBook)" and
    get: "Get (Vars (request_for ''2'' None)) ''id'' = ID newBook \<longrightarrow>
           ((\<forall>b\<in>set (books shelf). ID b \<noteq> ID newBook) \<longrightarrow>
              GetBook fine (request_for ''2'' None) (snd (CreateBook ?x ?r shelf)) =
                (reply 200 (BookJson newBook), snd (CreateBook ?x ?r shelf)))"
    by blast
  from nb have n: "newBook = ?nb" by (simp add: run reply_def)
  from create_then_get [of ?y ?r shelf "request_for ''1'' None" fine] s1
  obtain oldBook where
    ob: "fst (CreateBook ?y ?r shelf) = reply 201 (BookJson oldBook)" and
    get1: "Get (Vars (request_for ''1'' None)) ''id'' = ID oldBook \<longrightarrow>
           (\<forall>xs e ys.
              books shelf = xs @ e # ys \<and> (\<forall>b\<in>set xs. ID b \<noteq> ID oldBook) \<and>
              ID e = ID oldBook \<longrightarrow>
                GetBook fine (request_for ''1'' None) (snd (CreateBook ?y ?r shelf)) =
                  (reply 200 (BookJson e), snd (CreateBook ?y ?r shelf)))"
    by blast
  from ob have o: "oldBook = ?ob" by (simp add: run1 reply_def)
  from get1 g1 held have "GetBook fine (request_for ''1'' None) (snd (CreateBook ?y ?r shelf)) =
      (reply 200 (BookJson dune), snd (CreateBook ?y ?r shelf))"
    unfolding o by blast
  with nb get g fresh show ?thesis unfolding n by simp
qed

text \<open>
  C4. The claim: after an \<^verbatim>\<open>UpdateBook\<close> that answers 200 the row and the cached book
  have the title, author and year of the body, and the id and the registration timestamp
  of the book are what they were. The row and the title, author, year and id of the
  cached book are so (\<open>UpdateBook_effect\<close>). The timestamp of the cached book is not:
  \<^verbatim>\<open>main\<close> fills the cache with \<^verbatim>\<open>regdate.Format("2006-01-02 15:04:05")\<close>, while
  \<^verbatim>\<open>UpdateBook\<close> lets \<^verbatim>\<open>Scan\<close> render the same column into the string field. Below, the
  cache is the one \<^verbatim>\<open>main\<close> has loaded from a table of one row; the first update of that
  book answers 200 and leaves the cached book with another timestamp string.
\<close>

theorem update_loaded_regdate:
  "map_option Loaded (main environ_ok boot_ok [dune_row]) =
     Some [dune\<lparr>Regdate := ''2024-01-02 15:04:05''\<rparr>] \<and>
   UpdateBook fine (request_for ''1'' (Some dune_rev))
      \<lparr>books = [dune\<lparr>Regdate := ''2024-01-02 15:04:05''\<rparr>], tbl_book = [dune_row]\<rparr> =
     (reply 200 (BookJson (dune\<lparr>Title := ''Dune (rev)''\<rparr>)),
      \<lparr>books = [dune\<lparr>Title := ''Dune (rev)''\<rparr>],
       tbl_book = [dune_row\<lparr>col_title := ''Dune (rev)''\<rparr>]\<rparr>) \<and>
   Regdate (dune\<lparr>Title := ''Dune (rev)''\<rparr>) = ''2024-01-02T15:04:05Z'' \<and>
   Regdate (dune\<lparr>Title := ''Dune (rev)''\<rparr>) \<noteq> Regdate (dune\<lparr>Regdate := ''2024-01-02 15:04:05''\<rparr>)"
proof -
  have "loadConfig environ_ok \<noteq> None"
    by (simp add: loadConfig_def getEnv_def Get_def environ_ok_def Let_def)
  then have "map_option Loaded (main environ_ok boot_ok [dune_row]) =
     Some [dune\<lparr>Regdate := ''2024-01-02 15:04:05''\<rparr>]"
    by (auto simp: main_def connectDB_def load_books_def load_book_def boot_ok_def
        format_sample_def dune_row_def dune_def)
  moreover have "UpdateBook fine (request_for ''1'' (Some dune_rev))
      \<lparr>books = [dune\<lparr>Regdate := ''2024-01-02 15:04:05''\<rparr>], tbl_book = [dune_row]\<rparr> =
     (reply 200 (BookJson (dune\<lparr>Title := ''Dune (rev)''\<rparr>)),
      \<lparr>books = [dune\<lparr>Title := ''Dune (rev)''\<rparr>],
       tbl_book = [dune_row\<lparr>col_title := ''Dune (rev)''\<rparr>]\<rparr>)"
    by (simp add: UpdateBook_flat QueryRow_by_id_def updated_def Scan_def scan_sample_def
        fine_def request_for_def Get_def dune_def dune_rev_def dune_row_def)
  moreover have "Regdate (dune\<lparr>Title := ''Dune (rev)''\<rparr>) = ''2024-01-02T15:04:05Z''"
    by (simp add: dune_def)
  ultimately show ?thesis by simp
qed

text \<open>
  C5. The claim: a \<^verbatim>\<open>DeleteBook\<close> for an id the table holds answers 200, and afterwards
  \<^verbatim>\<open>GetBook\<close> for the id answers 404 and \<^verbatim>\<open>GetBooks\<close> lists no book with the id. It is so
  when the cache holds the book once (\<open>DeleteBook_single\<close>). Below, the cache mirrors a
  table whose row 1 has a \<^verbatim>\<open>regdate\<close> later than the clock of the next insert. A
  \<^verbatim>\<open>CreateBook\<close> inserts row 2, reads back the row with the newest \<^verbatim>\<open>regdate\<close>, which is
  row 1 and not the row it added, and appends book 1 to the cache a second time. The
  \<^verbatim>\<open>DeleteBook\<close> of id 1 answers 200 and takes one of the two out; \<^verbatim>\<open>GetBook\<close> for id 1
  still answers 200 and \<^verbatim>\<open>GetBooks\<close> still lists the book.
\<close>

theorem delete_leaves_duplicate:
  "shelf = \<lparr>books = [Scan fine dune_row], tbl_book = [dune_row]\<rparr> \<and>
   CreateBook fine (request_for [] (Some dune_rev)) shelf =
     (reply 201 (BookJson dune),
      \<lparr>books = [dune, dune], tbl_book = [dune_row, dune_row2]\<rparr>) \<and>
   DeleteBook fine (request_for ''1'' None)
      \<lparr>books = [dune, dune], tbl_book = [dune_row, dune_row2]\<rparr> =
     (reply 200 (Object [(''message'', Deleted)]),
      \<lparr>books = [dune], tbl_book = [dune_row2]\<rparr>) \<and>
   fst (GetBook fine (request_for ''1'' None) \<lparr>books = [dune], tbl_book = [dune_row2]\<rparr>) =
     reply 200 (BookJson dune) \<and>
   fst (GetBooks fine (request_for [] None) \<lparr>books = [dune], tbl_book = [dune_row2]\<rparr>) =
     reply 200 (BooksJson [dune]) \<and>
   ID dune = ''1''"
  by (simp add: CreateBook_flat DeleteBook_flat GetBook_def GetBooks_def QueryRow_latest_def
      inserted_def Scan_def scan_sample_def fine_def request_for_def shelf_def dune_def
      dune_rev_def dune_row_def dune_row2_def Get_def Let_def)

text \<open>
  C6, as the code has it. The claim reads, among the rest: any \<^verbatim>\<open>id\<close> or
  \<^verbatim>\<open>registration_timestamp\<close> field of the body is ignored. Both are string fields of
  \<^verbatim>\<open>Book\<close>, and \<^verbatim>\<open>Decode\<close> refuses a body that gives one of them a value of another kind.
  Below, the body with the number 5 as \<^verbatim>\<open>id\<close> is answered 400 and nothing is inserted,
  where the same body without the field is answered 201.
\<close>

theorem create_contract_counterexample:
  "Decode (Some (JObject ((''id'', JNumber 5) # rev_fields))) = None \<and>
   CreateBook (fine\<lparr>getdate := 200\<rparr>)
      (request_for [] (Decode (Some (JObject ((''id'', JNumber 5) # rev_fields))))) shelf =
     (reply 400 (error_body BadFormat), shelf) \<and>
   CreateBook_main_go (fine\<lparr>getdate := 200\<rparr>)
      (request_for [] (Decode (Some (JObject ((''id'', JNumber 5) # rev_fields))))) shelf =
     (reply 400 (error_body BadFormat), shelf) \<and>
   status (fst (CreateBook (fine\<lparr>getdate := 200\<rparr>)
      (request_for [] (Decode (Some (JObject rev_fields)))) shelf)) = 201"
proof -
  have "Decode (Some (JObject ((''id'', JNumber 5) # rev_fields))) = None"
    by (simp add: Decode_def set_field_def string_field_def lower_def)
  moreover have "status (fst (CreateBook (fine\<lparr>getdate := 200\<rparr>)
      (request_for [] (Some dune_rev)) shelf)) = 201"
    by (simp add: CreateBook_flat QueryRow_latest_def inserted_def fine_def request_for_def
        shelf_def dune_row_def reply_def)
  ultimately show ?thesis
    by (simp add: Decode_rev CreateBook_flat CreateBook_main_go_flat request_for_def)
qed

text \<open>
  C6, amended. \<^verbatim>\<open>CreateBook\<close>, in both versions. A body that does not decode: 400, table
  and cache as they were; a body that gives \<^verbatim>\<open>id\<close> or \<^verbatim>\<open>regdate\<close> a value that is neither
  a string nor \<^verbatim>\<open>null\<close> is such a body. In a body that decodes, the \<^verbatim>\<open>id\<close> and
  \<^verbatim>\<open>regdate\<close> fields change nothing: the body without them has the same outcome, and the
  row the statement inserts carries the title, author and year only. The driver failing
  the insert: 500. The insert done and the read of the newest row failing: 500, the
  cache as it was. The read succeeding (it does whenever the query itself does not
  fail): the row read is appended to the cache and returned with 201.
\<close>

theorem create_contract:
  "(h = CreateBook \<or> h = CreateBook_main_go) \<and> Decoded r = Decode j \<longrightarrow>
   (Decode j = None \<longrightarrow> status (fst (h x r st)) = 400 \<and> snd (h x r st) = st) \<and>
   (j = Some (JObject kvs) \<and> (k, v) \<in> set kvs \<and>
    (map lower k = ''id'' \<or> map lower k = ''regdate'') \<and>
    v \<noteq> JNull \<and> (\<forall>s. v \<noteq> JString s) \<longrightarrow>
      status (fst (h x r st)) = 400 \<and> snd (h x r st) = st) \<and>
   (j = Some (JObject kvs) \<and> Decode j = Some b \<longrightarrow>
      Decode (Some (JObject (without_id kvs))) = Some (b\<lparr>ID := [], Regdate := []\<rparr>) \<and>
      h x (r\<lparr>Decoded := Decode (Some (JObject (without_id kvs)))\<rparr>) st = h x r st) \<and>
   (Decode j = Some b \<longrightarrow>
      h x (r\<lparr>Decoded := Some (b\<lparr>ID := i, Regdate := d\<rparr>)\<rparr>) st = h x r st \<and>
      (exec_err x = Some e \<longrightarrow> status (fst (h x r st)) = 500 \<and> snd (h x r st) = st) \<and>
      (exec_err x = None \<longrightarrow>
         tbl_book (snd (h x r st)) =
           tbl_book st @ [\<lparr>col_id = new_id x, col_title = Title b, col_author = Author b,
                            col_year = Year b, col_regdate = getdate x\<rparr>] \<and>
         (QueryRow_latest x (tbl_book (snd (h x r st))) = None \<longrightarrow>
            status (fst (h x r st)) = 500 \<and> books (snd (h x r st)) = books st) \<and>
         (\<forall>newBook. QueryRow_latest x (tbl_book (snd (h x r st))) = Some newBook \<longrightarrow>
            fst (h x r st) = reply 201 (BookJson newBook) \<and>
            books (snd (h x r st)) = books st @ [newBook]) \<and>
         (query_err x = False \<longrightarrow>
            QueryRow_latest x (tbl_book (snd (h x r st))) \<noteq> None)))"
proof (intro impI)
  assume H: "(h = CreateBook \<or> h = CreateBook_main_go) \<and> Decoded r = Decode j"
  then have h: "h = CreateBook \<or> h = CreateBook_main_go" and dj: "Decoded r = Decode j"
    by blast+
  have bad: "status (fst (h x r st)) = 400 \<and> snd (h x r st) = st" if "Decode j = None"
  proof -
    from that dj have "Decoded r = None" by simp
    with CreateBook_branches [where h = h and r = r and x = x and st = st] h
    show ?thesis by blast
  qed
  have mistyped: "status (fst (h x r st)) = 400 \<and> snd (h x r st) = st"
    if m: "j = Some (JObject kvs) \<and> (k, v) \<in> set kvs \<and>
      (map lower k = ''id'' \<or> map lower k = ''regdate'') \<and>
      v \<noteq> JNull \<and> (\<forall>s. v \<noteq> JString s)"
  proof -
    from m have "decode_fields kvs zero_Book = None"
      by (intro decode_fields_mistyped [of k v kvs zero_Book]) simp_all
    with m have "Decode j = None" by (auto simp: Decode_def)
    then show ?thesis by (rule bad)
  qed
  have old: "h x (r\<lparr>Decoded := Some (b\<lparr>ID := i', Regdate := d'\<rparr>)\<rparr>) st = h x r st"
    if "Decode j = Some b" for i' d'
  proof -
    from that dj have "Decoded r = Some b" by simp
    with CreateBook_branches [where h = h and r = r and x = x and st = st and b = b
        and i = i' and d = d'] h
    show ?thesis by blast
  qed
  have stripped: "Decode (Some (JObject (without_id kvs))) = Some (b\<lparr>ID := [], Regdate := []\<rparr>) \<and>
      h x (r\<lparr>Decoded := Decode (Some (JObject (without_id kvs)))\<rparr>) st = h x r st"
    if s: "j = Some (JObject kvs) \<and> Decode j = Some b"
  proof -
    from s have "decode_fields kvs zero_Book = Some b" by (auto simp: Decode_def)
    from decode_fields_without_id [OF this, of "[]" "[]"]
    have w: "Decode (Some (JObject (without_id kvs))) = Some (b\<lparr>ID := [], Regdate := []\<rparr>)"
      by (simp add: Decode_def zero_Book_def)
    from s old [of "[]" "[]"] show ?thesis by (auto simp: w)
  qed
  have rest: "(exec_err x = Some e \<longrightarrow> status (fst (h x r st)) = 500 \<and> snd (h x r st) = st) \<and>
      (exec_err x = None \<longrightarrow>
         tbl_book (snd (h x r st)) =
           tbl_book st @ [\<lparr>col_id = new_id x, col_title = Title b, col_author = Author b,
                            col_year = Year b, col_regdate = getdate x\<rparr>] \<and>
         (QueryRow_latest x (tbl_book (snd (h x r st))) = None \<longrightarrow>
            status (fst (h x r st)) = 500 \<and> books (snd (h x r st)) = books st) \<and>
         (\<forall>newBook. QueryRow_latest x (tbl_book (snd (h x r st))) = Some newBook \<longrightarrow>
            fst (h x r st) = reply 201 (BookJson newBook) \<and>
            books (snd (h x r st)) = books st @ [newBook]) \<and>
         (query_err x = False \<longrightarrow>
            QueryRow_latest x (tbl_book (snd (h x r st))) \<noteq> None))"
    if "Decode j = Some b"
  proof -
    from that dj have "Decoded r = Some b" by simp
    with CreateBook_branches [where h = h and r = r and x = x and st = st and b = b
        and i = i and d = d and e = e] h
    show ?thesis by blast
  qed
  from bad mistyped stripped old rest
  show "(Decode j = None \<longrightarrow> status (fst (h x r st)) = 400 \<and> snd (h x r st) = st) \<and>
   (j = Some (JObject kvs) \<and> (k, v) \<in> set kvs \<and>
    (map lower k = ''id'' \<or> map lower k = ''regdate'') \<and>
    v \<noteq> JNull \<and> (\<forall>s. v \<noteq> JString s) \<longrightarrow>
      status (fst (h x r st)) = 400 \<and> snd (h x r st) = st) \<and>
   (j = Some (JObject kvs) \<and> Decode j = Some b \<longrightarrow>
      Decode (Some (JObject (without_id kvs))) = Some (b\<lparr>ID := [], Regdate := []\<rparr>) \<and>
      h x (r\<lparr>Decoded := Decode (Some (JObject (without_id kvs)))\<rparr>) st = h x r st) \<and>
   (Decode j = Some b \<longrightarrow>
      h x (r\<lparr>Decoded := Some (b\<lparr>ID := i, Regdate := d\<rparr>)\<rparr>) st = h x r st \<and>
      (exec_err x = Some e \<longrightarrow> status (fst (h x r st)) = 500 \<and> snd (h x r st) = st) \<and>
      (exec_err x = None \<longrightarrow>
         tbl_book (snd (h x r st)) =
           tbl_book st @ [\<lparr>col_id = new_id x, col_title = Title b, col_author = Author b,
                            col_year = Year b, col_regdate = getdate x\<rparr>] \<and>
         (QueryRow_latest x (tbl_book (snd (h x r st))) = None \<longrightarrow>
            status (fst (h x r st)) = 500 \<and> books (snd (h x r st)) = books st) \<and>
         (\<forall>newBook. QueryRow_latest x (tbl_book (snd (h x r st))) = Some newBook \<longrightarrow>
            fst (h x r st) = reply 201 (BookJson newBook) \<and>
            books (snd (h x r st)) = books st @ [newBook]) \<and>
         (query_err x = False \<longrightarrow>
            QueryRow_latest x (tbl_book (snd (h x r st))) \<noteq> None)))"
    by blast
qed

text \<open>
  The instances, on a table holding one row: no body; a body with \<^verbatim>\<open>true\<close> as
  \<^verbatim>\<open>regdate\<close>; a body with the string 99 as \<^verbatim>\<open>id\<close>, which decodes, beside the same body
  without it; the insert failing; the read of the newest row failing; and the request
  that succeeds.
\<close>

theorem create_contract_witness:
  "status (fst (CreateBook fine (request_for [] (Decode None)) shelf)) = 400 \<and>
   snd (CreateBook fine (request_for [] (Decode None)) shelf) = shelf \<and>
   status (fst (CreateBook_main_go fine
      (request_for [] (Decode (Some (JObject ((''regdate'', JBool True) # rev_fields)))))
      shelf)) = 400 \<and>
   Decode (Some (JObject ((''id'', JString ''99'') # rev_fields))) =
     Some (dune_rev\<lparr>ID := ''99''\<rparr>) \<and>
   CreateBook (fine\<lparr>getdate := 200\<rparr>)
      (request_for [] (Decode (Some (JObject ((''id'', JString ''99'') # rev_fields)))))
      shelf =
     CreateBook (fine\<lparr>getdate := 200\<rparr>)
      (request_for [] (Decode (Some (JObject rev_fields)))) shelf \<and>
   status (fst (CreateBook_main_go (fine\<lparr>exec_err := Some ''down''\<rparr>)
                  (request_for [] (Decode (Some (JObject rev_fields)))) shelf)) = 500 \<and>
   status (fst (CreateBook (fine\<lparr>query_err := True\<rparr>)
                  (request_for [] (Decode (Some (JObject rev_fields)))) shelf)) = 500 \<and>
   CreateBook (fine\<lparr>getdate := 200\<rparr>)
      (request_for [] (Decode (Some (JObject rev_fields)))) shelf =
     (reply 201 (BookJson \<lparr>ID = ''2'', Title = ''Dune (rev)'', Author = ''Herbert'',
                           Year = 1965, Regdate = ''2024-01-01T00:00:00Z''\<rparr>),
      \<lparr>books = [dune, \<lparr>ID = ''2'', Title = ''Dune (rev)'', Author = ''Herbert'',
                         Year = 1965, Regdate = ''2024-01-01T00:00:00Z''\<rparr>],
       tbl_book = [dune_row, \<lparr>col_id = ''2'', col_title = ''Dune (rev)'',
                               col_author = ''Herbert'', col_year = 1965,
                               col_regdate = 200\<rparr>]\<rparr>)"
proof -
  let ?none = "None :: json option"
  let ?bad = "Some (JObject ((''regdate'', JBool True) # rev_fields))"
  let ?id = "Some (JObject ((''id'', JString ''99'') # rev_fields))"
  let ?rev = "Some (JObject rev_fields)"
  have dec: "Decoded (request_for [] (Decode j)) = Decode j" for j
    by (simp add: request_for_def)
  have put: "(request_for [] a)\<lparr>Decoded := c\<rparr> = request_for [] c" for a c
    by (simp add: request_for_def)
  have dnone: "Decode ?none = None"
    by (simp add: Decode_def)
  have did: "Decode ?id = Some (dune_rev\<lparr>ID := ''99''\<rparr>)"
    by (simp add: Decode_def rev_fields_def set_field_def string_field_def int_field_def
        lower_def Let_def zero_Book_def dune_rev_def)
  have wid: "without_id ((''id'', JString ''99'') # rev_fields) = rev_fields"
    by (simp add: without_id_def rev_fields_def lower_def Let_def)
  have down: "exec_err (fine\<lparr>exec_err := Some ''down''\<rparr>) = Some ''down''"
    and up: "exec_err (fine\<lparr>query_err := True\<rparr>) = None"
      "exec_err (fine\<lparr>getdate := 200\<rparr>) = None"
    by (simp_all add: fine_def)
  have "status (fst (CreateBook fine (request_for [] (Decode ?none)) shelf)) = 400 \<and>
      snd (CreateBook fine (request_for [] (Decode ?none)) shelf) = shelf"
    using create_contract [where h = CreateBook and r = "request_for [] (Decode ?none)"
        and j = ?none and x = fine and st = shelf] dec [of ?none] dnone
    by blast
  moreover have "status (fst (CreateBook_main_go fine (request_for [] (Decode ?bad)) shelf)) = 400"
    using create_contract [where h = CreateBook_main_go
        and r = "request_for [] (Decode ?bad)" and j = ?bad and x = fine and st = shelf
        and kvs = "(''regdate'', JBool True) # rev_fields" and k = "''regdate''"
        and v = "JBool True"] dec [of ?bad]
    by (simp add: lower_def Let_def)
  moreover note did
  moreover have "CreateBook (fine\<lparr>getdate := 200\<rparr>) (request_for [] (Decode ?id)) shelf =
     CreateBook (fine\<lparr>getdate := 200\<rparr>) (request_for [] (Decode ?rev)) shelf"
    using create_contract [where h = CreateBook and r = "request_for [] (Decode ?id)"
        and j = ?id and x = "fine\<lparr>getdate := 200\<rparr>" and st = shelf
        and kvs = "(''id'', JString ''99'') # rev_fields"
        and b = "dune_rev\<lparr>ID := ''99''\<rparr>"] dec [of ?id] did
    by (simp add: put wid)
  moreover have "status (fst (CreateBook_main_go (fine\<lparr>exec_err := Some ''down''\<rparr>)
                  (request_for [] (Decode ?rev)) shelf)) = 500"
    using create_contract [where h = CreateBook_main_go
        and r = "request_for [] (Decode ?rev)" and j = ?rev
        and x = "fine\<lparr>exec_err := Some ''down''\<rparr>" and st = shelf and b = dune_rev
        and e = "''down''"] dec [of ?rev] Decode_rev down
    by simp
  moreover have "status (fst (CreateBook (fine\<lparr>query_err := True\<rparr>)
                  (request_for [] (Decode ?rev)) shelf)) = 500"
    using create_contract [where h = CreateBook and r = "request_for [] (Decode ?rev)"
        and j = ?rev and x = "fine\<lparr>query_err := True\<rparr>" and st = shelf
        and b = dune_rev] dec [of ?rev] Decode_rev up
    by (simp add: QueryRow_latest_def)
  moreover have "CreateBook (fine\<lparr>getdate := 200\<rparr>) (request_for [] (Decode ?rev)) shelf =
     (reply 201 (BookJson \<lparr>ID = ''2'', Title = ''Dune (rev)'', Author = ''Herbert'',
                           Year = 1965, Regdate = ''2024-01-01T00:00:00Z''\<rparr>),
      \<lparr>books = [dune, \<lparr>ID = ''2'', Title = ''Dune (rev)'', Author = ''Herbert'',
                         Year = 1965, Regdate = ''2024-01-01T00:00:00Z''\<rparr>],
       tbl_book = [dune_row, \<lparr>col_id = ''2'', col_title = ''Dune (rev)'',
                               col_author = ''Herbert'', col_year = 1965,
                               col_regdate = 200\<rparr>]\<rparr>)"
  proof -
    let ?res = "CreateBook (fine\<lparr>getdate := 200\<rparr>) (request_for [] (Decode ?rev)) shelf"
    from create_contract [where h = CreateBook and r = "request_for [] (Decode ?rev)"
        and j = ?rev and x = "fine\<lparr>getdate := 200\<rparr>" and st = shelf
        and b = dune_rev] dec [of ?rev] Decode_rev up
    have t: "tbl_book (snd ?res) = [dune_row, \<lparr>col_id = ''2'', col_title = ''Dune (rev)'',
             col_author = ''Herbert'', col_year = 1965, col_regdate = 200\<rparr>]"
      and n: "\<forall>newBook. QueryRow_latest (fine\<lparr>getdate := 200\<rparr>) (tbl_book (snd ?res)) =
            Some newBook \<longrightarrow>
            fst ?res = reply 201 (BookJson newBook) \<and>
            books (snd ?res) = books shelf @ [newBook]"
      by (simp_all add: fine_def shelf_def dune_rev_def)
    have q: "QueryRow_latest (fine\<lparr>getdate := 200\<rparr>) (tbl_book (snd ?res)) =
        Some \<lparr>ID = ''2'', Title = ''Dune (rev)'', Author = ''Herbert'',
              Year = 1965, Regdate = ''2024-01-01T00:00:00Z''\<rparr>"
      unfolding t
      by (simp add: QueryRow_latest_def fine_def dune_row_def Scan_def scan_sample_def)
    from n q have "fst ?res = reply 201 (BookJson \<lparr>ID = ''2'', Title = ''Dune (rev)'',
          Author = ''Herbert'', Year = 1965, Regdate = ''2024-01-01T00:00:00Z''\<rparr>)"
      and "books (snd ?res) = [dune, \<lparr>ID = ''2'', Title = ''Dune (rev)'',
          Author = ''Herbert'', Year = 1965, Regdate = ''2024-01-01T00:00:00Z''\<rparr>]"
      by (simp_all add: shelf_def)
    with t show ?thesis
      by (simp add: prod_eq_iff state.equality)
  qed
  ultimately show ?thesis by blast
qed

end
